theory Spec2Isabelle
  imports Main "HOL-Library.AList" "HOL-Library.Sublist"
begin

section \<open>The wallet provider of depub.space\<close>

text \<open>
  The development embeds \<^verbatim>\<open>WalletProvider\<close> (the second document of
  \<^verbatim>\<open>src/packages/depub.space/src/screens/ChannelScreen.tsx\<close>, lines 332 to 608):
  the React state of the provider, the \<^verbatim>\<open>AsyncStorage\<close> it persists a session in, and
  the operations \<^verbatim>\<open>suggestChain\<close>, \<^verbatim>\<open>disconnect\<close>, \<^verbatim>\<open>initKepr\<close>,
  \<^verbatim>\<open>initWalletConnect\<close>, \<^verbatim>\<open>setupAccount\<close>, \<^verbatim>\<open>connectWalletConnect\<close>,
  \<^verbatim>\<open>connectKeplr\<close> and the \<^verbatim>\<open>keplr_keystorechange\<close> handler.

  What lies outside the repository (the Keplr extension, the WalletConnect client, the
  remote peer, \<^verbatim>\<open>JSON\<close>, \<^verbatim>\<open>Buffer\<close>, \<^verbatim>\<open>payloadId\<close>, the \<^verbatim>\<open>SignDoc\<close> codec) is a
  parameter of each operation: a record that says what each external call answers. Every
  awaited external call may reject; an exception is the value \<open>Inl message\<close>, as the
  handlers of the source only read \<^verbatim>\<open>ex.message\<close>.

  The calls of \<^verbatim>\<open>AsyncStorage\<close> take effect in the order in which they are issued.
  Its reads and removals are total: the store answers a value or none. An awaited
  write (\<^verbatim>\<open>setItem\<close>, lines 398, 449 and 498) may reject, as a write to a full
  store does; a rejected write leaves the store as it was.
\<close>

subsection \<open>JavaScript values\<close>

text \<open>
  The account tuple (\<^verbatim>\<open>let account: any\<close>) comes from the peer or from
  \<^verbatim>\<open>JSON.parse\<close>, and the accounts of Keplr come from a signer that the source reads
  through \<^verbatim>\<open>(window as any)\<close>: both are arbitrary JavaScript values. Numbers are integers here:
  the source only tests them for truthiness.
\<close>

datatype jv =
    JUndef
  | JNull
  | JBool bool
  | JNum int
  | JStr string
  | JArr "jv list"
  | JObj "(string \<times> jv) list"

text \<open>The truthy values: those for which \<^verbatim>\<open>!v\<close> is \<^verbatim>\<open>false\<close>.\<close>

fun truthy :: "jv \<Rightarrow> bool" where
  "truthy JUndef = False"
| "truthy JNull = False"
| "truthy (JBool b) = b"
| "truthy (JNum n) = (n \<noteq> 0)"
| "truthy (JStr s) = (s \<noteq> [])"
| "truthy (JArr xs) = True"
| "truthy (JObj kvs) = True"

definition TypeError_not_iterable :: string where
  "TypeError_not_iterable = ''TypeError: value is not iterable''"

definition TypeError_destructure :: string where
  "TypeError_destructure = ''TypeError: Cannot destructure property of undefined''"

definition TypeError_undefined :: string where
  "TypeError_undefined = ''TypeError: Cannot read properties of undefined''"

text \<open>
  The array pattern \<^verbatim>\<open>[account] = v\<close>: the first element of an iterable (an array or
  a string), \<^verbatim>\<open>undefined\<close> when it is empty, a \<^verbatim>\<open>TypeError\<close> for every other value.
\<close>

fun first_element :: "jv \<Rightarrow> string + jv" where
  "first_element (JArr []) = Inr JUndef"
| "first_element (JArr (x # xs)) = Inr x"
| "first_element (JStr []) = Inr JUndef"
| "first_element (JStr (c # cs)) = Inr (JStr [c])"
| "first_element v = Inl TypeError_not_iterable"

text \<open>
  The property read \<^verbatim>\<open>v.k\<close> on a value that is neither \<^verbatim>\<open>null\<close> nor
  \<^verbatim>\<open>undefined\<close>, for the keys the source reads (\<^verbatim>\<open>address\<close>,
  \<^verbatim>\<open>bech32Address\<close>, \<^verbatim>\<open>algo\<close>, \<^verbatim>\<open>pubKey\<close>, \<^verbatim>\<open>signed\<close>,
  \<^verbatim>\<open>signature\<close>): only an object can own them.
\<close>

fun get_prop :: "jv \<Rightarrow> string \<Rightarrow> jv" where
  "get_prop (JObj kvs) k = (case map_of kvs k of Some v \<Rightarrow> v | None \<Rightarrow> JUndef)"
| "get_prop v k = JUndef"

subsection \<open>AsyncStorage\<close>

type_synonym store = "(string \<times> string) list"

definition getItem :: "store \<Rightarrow> string \<Rightarrow> string option" where
  "getItem st k = map_of st k"

definition setItem :: "string \<Rightarrow> string \<Rightarrow> store \<Rightarrow> store" where
  "setItem k v st = AList.update k v st"

definition removeItem :: "string \<Rightarrow> store \<Rightarrow> store" where
  "removeItem k st = AList.delete k st"

definition getAllKeys :: "store \<Rightarrow> string list" where
  "getAllKeys st = map fst st"

definition KEY_WALLET_CONNECT_ACCOUNT_PREFIX :: string where
  "KEY_WALLET_CONNECT_ACCOUNT_PREFIX = ''KEY_WALLET_CONNECT_ACCOUNT_PREFIX''"

definition KEY_WALLET_CONNECT :: string where
  "KEY_WALLET_CONNECT = ''walletconnect''"

definition KEY_CONNECTED_WALLET_TYPE :: string where
  "KEY_CONNECTED_WALLET_TYPE = ''KEY_CONNECTED_WALLET_TYPE''"

text \<open>The key \<^verbatim>\<open>`${KEY_WALLET_CONNECT_ACCOUNT_PREFIX}_${newConnector.peerId}`\<close>.\<close>

definition account_key :: "string \<Rightarrow> string" where
  "account_key peer = KEY_WALLET_CONNECT_ACCOUNT_PREFIX @ ''_'' @ peer"

text \<open>
  \<^verbatim>\<open>new RegExp(`^${KEY_WALLET_CONNECT_ACCOUNT_PREFIX}`).test(key)\<close>: the pattern has no
  metacharacter besides the anchor, so it tests for a prefix.
\<close>

definition is_account_key :: "string \<Rightarrow> bool" where
  "is_account_key key = prefix KEY_WALLET_CONNECT_ACCOUNT_PREFIX key"

subsection \<open>Signers, external calls and the state\<close>

record account_data =
  address :: jv
  pubkey :: "nat list"
  algo :: jv

text \<open>
  The signer of Keplr is an object of the extension; the signer of WalletConnect is the
  object literal of lines 477 to 493, which closes over \<^verbatim>\<open>accounts\<close> and over the
  connector it sends its requests through.
\<close>

datatype signer =
    InjectedSigner
  | RelayedSigner account_data nat

record request =
  req_id :: nat
  jsonrpc :: string
  rpc_method :: string
  params :: "jv list"

text \<open>
  The external calls an operation makes, in the order it makes them. The writes of
  \<^verbatim>\<open>AsyncStorage\<close> show in the store itself; its reads are logged. A connector object is
  named by the number of its construction.
\<close>

datatype event =
    StorageGet string
  | StorageKeys
  | KeplrSuggestChain
  | KeplrEnable
  | KeplrGetSigner
  | KeplrGetAccounts
  | WcNew nat
  | WcKill nat
  | WcOn nat
  | WcConnect nat
  | WcRequest nat request

text \<open>
  The state an operation works on: the five \<^verbatim>\<open>useState\<close> cells of the provider (the
  address holds whatever value \<^verbatim>\<open>setWalletAddress\<close> was given, the connector cell a
  reference to a connector object), the contents of \<^verbatim>\<open>AsyncStorage\<close>, and three
  observers that the source does not have: the number of connector objects constructed
  so far, the number of calls of \<^verbatim>\<open>payloadId()\<close> so far, and the trace.
\<close>

record world =
  walletAddress :: "jv option"
  offlineSigner :: "signer option"
  connector :: "nat option"
  isLoading :: bool
  error :: "string option"
  storage :: store
  next_obj :: nat
  id_calls :: nat
  trace :: "event list"

definition emit :: "event \<Rightarrow> world \<Rightarrow> world" where
  "emit ev w = w\<lparr>trace := trace w @ [ev]\<rparr>"

text \<open>
  The state of a process that has just started on the store \<open>st\<close>: the initial values of
  the five \<^verbatim>\<open>useState\<close> hooks (lines 333 to 337).
\<close>

definition boot :: "store \<Rightarrow> world" where
  "boot st = \<lparr>walletAddress = None, offlineSigner = None, connector = None,
     isLoading = False, error = None, storage = st, next_obj = 0, id_calls = 0, trace = []\<rparr>"

text \<open>
  The library functions of the platform: \<^verbatim>\<open>JSON.parse\<close> (\<open>Inl\<close> is its SyntaxError),
  \<^verbatim>\<open>JSON.stringify\<close>, \<^verbatim>\<open>Buffer.from(_, 'hex')\<close>, the value of the \<open>n\<close>-th call of
  \<^verbatim>\<open>payloadId()\<close>, and \<^verbatim>\<open>PUBLIC_CHAIN_ID\<close>.
\<close>

record platform =
  json_parse :: "string \<Rightarrow> string + jv"
  json_stringify :: "jv \<Rightarrow> string"
  buffer_from_hex :: "jv \<Rightarrow> string + nat list"
  payload_id :: "nat \<Rightarrow> nat"
  chain_id :: string

text \<open>
  What \<^verbatim>\<open>window.keplr\<close> and \<^verbatim>\<open>window.getOfflineSignerAuto\<close> answer during one
  operation: whether the global is defined, the message each call rejects with (if it
  does), and the value \<^verbatim>\<open>getAccounts()\<close> resolves with. \<open>persist_keplr\<close> is the
  message the write of line 398 rejects with, if it does.
\<close>

record keplr_env =
  keplr_defined :: bool
  suggest_chain :: "string option"
  enable :: "string option"
  get_signer :: "string option"
  get_accounts :: "string + jv"
  persist_keplr :: "string option"

text \<open>
  What the WalletConnect client answers during one call of \<^verbatim>\<open>initWalletConnect\<close>:
  what the object of the first \<^verbatim>\<open>new WalletConnect\<close> reports (\<^verbatim>\<open>connected\<close>,
  \<^verbatim>\<open>peerId\<close>), whether \<^verbatim>\<open>killSession\<close> rejects, what the object of the second
  \<^verbatim>\<open>new WalletConnect\<close> reports, whether \<^verbatim>\<open>connect\<close> rejects or which peer it pairs
  with, and what \<^verbatim>\<open>sendCustomRequest\<close> answers to a request. \<open>persist_account\<close>
  and \<open>persist_relayed\<close> are the messages the writes of lines 449 and 498 reject
  with, if they do.
\<close>

record wc_env =
  first_connected :: bool
  first_peerId :: string
  kill_session :: "string option"
  second_connected :: bool
  second_peerId :: string
  connect :: "string + string"
  respond :: "request \<Rightarrow> string + jv"
  persist_account :: "string option"
  persist_relayed :: "string option"

text \<open>
  The two requests of the source, with the value of the \<open>n\<close>-th call of
  \<^verbatim>\<open>payloadId()\<close> as their \<^verbatim>\<open>id\<close> (lines 440 to 445 and 481 to 486).
\<close>

definition getAccounts_request :: "platform \<Rightarrow> nat \<Rightarrow> request" where
  "getAccounts_request p n =
     \<lparr>req_id = payload_id p n, jsonrpc = ''2.0'', rpc_method = ''cosmos_getAccounts'',
      params = [JStr (chain_id p)]\<rparr>"

definition signDirect_request :: "platform \<Rightarrow> nat \<Rightarrow> string \<Rightarrow> jv \<Rightarrow> request" where
  "signDirect_request p n signerAddress signDocInJSON =
     \<lparr>req_id = payload_id p n, jsonrpc = ''2.0'', rpc_method = ''cosmos_signDirect'',
      params = [JStr signerAddress, signDocInJSON]\<rparr>"

subsection \<open>suggestChain, disconnect, initKepr\<close>

definition suggestChain :: "keplr_env \<Rightarrow> world \<Rightarrow> world" where
  "suggestChain ke w =
    (if \<not> keplr_defined ke then w
     else
       let w1 = emit KeplrSuggestChain (w\<lparr>isLoading := True\<rparr>);
           w2 = (case suggest_chain ke of Some m \<Rightarrow> w1\<lparr>error := Some m\<rparr> | None \<Rightarrow> w1)
       in w2\<lparr>isLoading := False\<rparr>)"

text \<open>
  \<open>now_connected\<close> is what \<^verbatim>\<open>connector.connected\<close> reports when \<^verbatim>\<open>disconnect\<close>
  reads it. The removals of the \<^verbatim>\<open>forEach\<close> are issued before the two awaited ones.
\<close>

definition disconnect :: "bool \<Rightarrow> world \<Rightarrow> world" where
  "disconnect now_connected w =
    (let w0 = emit StorageKeys w;
         keys = getAllKeys (storage w0);
         accountKeys = filter is_account_key keys;
         st1 = fold removeItem accountKeys (storage w0);
         st2 = removeItem KEY_CONNECTED_WALLET_TYPE st1;
         st3 = removeItem KEY_WALLET_CONNECT st2;
         w1 = w0\<lparr>storage := st3\<rparr>;
         w2 = (case connector w1 of
                 Some c \<Rightarrow>
                   if now_connected then (emit (WcKill c) w1)\<lparr>connector := None\<rparr> else w1
               | None \<Rightarrow> w1)
     in w2\<lparr>walletAddress := None, offlineSigner := None, isLoading := False, error := None\<rparr>)"

text \<open>
  \<^verbatim>\<open>initKepr\<close> (lines 382 to 401). The pattern \<^verbatim>\<open>[{ address }]\<close> takes the first
  element of the accounts and reads its \<^verbatim>\<open>address\<close>; an element that is
  \<^verbatim>\<open>undefined\<close> or \<^verbatim>\<open>null\<close> cannot be destructured. The address and the signer are
  set before the wallet type is written.
\<close>

definition initKepr :: "keplr_env \<Rightarrow> world \<Rightarrow> (string + bool) \<times> world" where
  "initKepr ke w =
    (if \<not> keplr_defined ke then (Inl TypeError_undefined, w)
     else
       let w1 = emit KeplrEnable w in
       case enable ke of
         Some m \<Rightarrow> (Inl m, w1)
       | None \<Rightarrow>
           let w2 = emit KeplrGetSigner w1 in
           (case get_signer ke of
              Some m \<Rightarrow> (Inl m, w2)
            | None \<Rightarrow>
                let w3 = emit KeplrGetAccounts w2 in
                (case get_accounts ke of
                   Inl m \<Rightarrow> (Inl m, w3)
                 | Inr accounts \<Rightarrow>
                     (case first_element accounts of
                        Inl m \<Rightarrow> (Inl m, w3)
                      | Inr first \<Rightarrow>
                          if first = JUndef \<or> first = JNull then (Inl TypeError_destructure, w3)
                          else
                            let addr = get_prop first ''address'' in
                            if \<not> truthy addr then (Inr False, w3)
                            else
                              let w4 = w3\<lparr>walletAddress := Some addr,
                                        offlineSigner := Some InjectedSigner\<rparr>
                              in (case persist_keplr ke of
                                    Some m \<Rightarrow> (Inl m, w4)
                                  | None \<Rightarrow>
                                      (Inr True,
                                       w4\<lparr>storage :=
                                         setItem KEY_CONNECTED_WALLET_TYPE ''keplr''
                                           (storage w4)\<rparr>))))))"

subsection \<open>initWalletConnect\<close>

text \<open>
  Lines 405 to 427: the first object is constructed and stored with \<^verbatim>\<open>setConnector\<close>;
  if it reports itself connected it is killed and a second object is constructed (and
  not stored). The result is the object the rest of the function uses, with what it
  reports.
\<close>

definition wc_construct :: "wc_env \<Rightarrow> world \<Rightarrow> (string + nat \<times> bool \<times> string) \<times> world" where
  "wc_construct e w =
    (let c1 = next_obj w;
         w1 = (emit (WcNew c1) w)\<lparr>next_obj := Suc c1, connector := Some c1\<rparr>
     in
       if first_connected e then
         (let w2 = emit (WcKill c1) w1 in
          case kill_session e of
            Some m \<Rightarrow> (Inl m, w2)
          | None \<Rightarrow>
              let c2 = next_obj w2;
                  w3 = (emit (WcNew c2) w2)\<lparr>next_obj := Suc c2\<rparr>
              in (Inr (c2, second_connected e, second_peerId e), w3))
       else (Inr (c1, False, first_peerId e), w1))"

text \<open>
  Lines 435 to 467: a connector that is not connected pairs, asks the peer for its
  accounts and caches the first one; a connected one loads the cached account, and
  removes the session record when there is none.
\<close>

definition wc_account ::
  "platform \<Rightarrow> wc_env \<Rightarrow> nat \<times> bool \<times> string \<Rightarrow> world \<Rightarrow> (string + jv) \<times> world" where
  "wc_account p e cn w =
    (case cn of (c, conn, peer) \<Rightarrow>
      if \<not> conn then
        (let w1 = emit (WcConnect c) w in
         case connect e of
           Inl m \<Rightarrow> (Inl m, w1)
         | Inr peer' \<Rightarrow>
             let req = getAccounts_request p (id_calls w1);
                 w2 = (emit (WcRequest c req) w1)\<lparr>id_calls := Suc (id_calls w1)\<rparr>
             in (case respond e req of
                   Inl m \<Rightarrow> (Inl m, w2)
                 | Inr res \<Rightarrow>
                     (case first_element res of
                        Inl m \<Rightarrow> (Inl m, w2)
                      | Inr account \<Rightarrow>
                          (case persist_account e of
                             Some m \<Rightarrow> (Inl m, w2)
                           | None \<Rightarrow>
                               (Inr account,
                                w2\<lparr>storage :=
                                  setItem (account_key peer') (json_stringify p account)
                                    (storage w2)\<rparr>)))))
      else
        (let w1 = emit (StorageGet KEY_WALLET_CONNECT) (emit (StorageGet (account_key peer)) w);
             serializedWalletConnectAccount = getItem (storage w) (account_key peer);
             walletConnectConnectSession = getItem (storage w) KEY_WALLET_CONNECT
         in
           case serializedWalletConnectAccount of
             Some (x # xs) \<Rightarrow>
               (case json_parse p (x # xs) of
                  Inl m \<Rightarrow> (Inl m, w1)
                | Inr account \<Rightarrow> (Inr account, w1))
           | _ \<Rightarrow>
               (case walletConnectConnectSession of
                  Some (y # ys) \<Rightarrow>
                    (Inr JUndef, w1\<lparr>storage := removeItem KEY_WALLET_CONNECT (storage w1)\<rparr>)
                | _ \<Rightarrow> (Inr JUndef, w1))))"

text \<open>
  Lines 469 to 500: the account is validated and becomes the session; the address and
  the signer are set before the wallet type is written.
\<close>

definition wc_finish ::
  "platform \<Rightarrow> wc_env \<Rightarrow> nat \<Rightarrow> jv \<Rightarrow> world \<Rightarrow> (string + bool) \<times> world" where
  "wc_finish p e c account w =
    (if \<not> truthy account then (Inr False, w)
     else
       let addr = get_prop account ''bech32Address'';
           alg = get_prop account ''algo'';
           pubKeyInHex = get_prop account ''pubKey''
       in
         if \<not> truthy addr \<or> \<not> truthy alg \<or> \<not> truthy pubKeyInHex then (Inr False, w)
         else
           (case buffer_from_hex p pubKeyInHex of
              Inl m \<Rightarrow> (Inl m, w)
            | Inr bytes \<Rightarrow>
                let w1 = w\<lparr>walletAddress := Some addr,
                          offlineSigner :=
                            Some (RelayedSigner
                              \<lparr>address = addr, pubkey = bytes, algo = alg\<rparr> c)\<rparr>
                in (case persist_relayed e of
                      Some m \<Rightarrow> (Inl m, w1)
                    | None \<Rightarrow>
                        (Inr True,
                         w1\<lparr>storage :=
                           setItem KEY_CONNECTED_WALLET_TYPE ''likerland_app''
                             (storage w1)\<rparr>))))"

definition initWalletConnect :: "platform \<Rightarrow> wc_env \<Rightarrow> world \<Rightarrow> (string + bool) \<times> world" where
  "initWalletConnect p e w =
    (case wc_construct e w of
       (Inl m, w1) \<Rightarrow> (Inl m, w1)
     | (Inr cn, w1) \<Rightarrow>
         (case wc_account p e cn (emit (WcOn (fst cn)) w1) of
            (Inl m, w2) \<Rightarrow> (Inl m, w2)
          | (Inr account, w2) \<Rightarrow> wc_finish p e (fst cn) account w2))"

subsection \<open>The signer of a relayed session\<close>

record 'd sign_response =
  signed :: 'd
  signature :: jv

definition getAccounts :: "account_data \<Rightarrow> account_data list" where
  "getAccounts acct = [acct]"

text \<open>
  \<^verbatim>\<open>signDirect\<close> of lines 479 to 492, through the connector \<open>c\<close>. \<open>toJSON\<close> and
  \<open>fromJSON\<close> are \<^verbatim>\<open>SignDoc.toJSON\<close> and \<^verbatim>\<open>SignDoc.fromJSON\<close>; \<open>answer\<close> is what
  \<^verbatim>\<open>sendCustomRequest\<close> answers to a request. Reading a property of \<^verbatim>\<open>null\<close> or
  \<^verbatim>\<open>undefined\<close> is a TypeError.
\<close>

definition signDirect ::
  "platform \<Rightarrow> ('d \<Rightarrow> jv) \<Rightarrow> (jv \<Rightarrow> string + 'd) \<Rightarrow> (request \<Rightarrow> string + jv) \<Rightarrow> nat \<Rightarrow>
     string \<Rightarrow> 'd \<Rightarrow> world \<Rightarrow> (string + 'd sign_response) \<times> world" where
  "signDirect p toJSON fromJSON answer c signerAddress signDoc w =
    (let signDocInJSON = toJSON signDoc;
         req = signDirect_request p (id_calls w) signerAddress signDocInJSON;
         w1 = (emit (WcRequest c req) w)\<lparr>id_calls := Suc (id_calls w)\<rparr>
     in case answer req of
          Inl m \<Rightarrow> (Inl m, w1)
        | Inr resInJSON \<Rightarrow>
            if resInJSON = JUndef \<or> resInJSON = JNull then (Inl TypeError_undefined, w1)
            else
              (case fromJSON (get_prop resInJSON ''signed'') of
                 Inl m \<Rightarrow> (Inl m, w1)
               | Inr d \<Rightarrow> (Inr \<lparr>signed = d, signature = get_prop resInJSON ''signature''\<rparr>, w1)))"

subsection \<open>setupAccount, connectWalletConnect, connectKeplr, the keystore handler\<close>

definition set_error :: "string + bool \<Rightarrow> world \<Rightarrow> world" where
  "set_error r w = (case r of Inl m \<Rightarrow> w\<lparr>error := Some m\<rparr> | Inr b \<Rightarrow> w)"

text \<open>
  The body of the \<^verbatim>\<open>try\<close> block of \<^verbatim>\<open>setupAccount\<close> (lines 519 to 523), with the
  value of \<^verbatim>\<open>connected\<close> it leaves; \<^verbatim>\<open>connected\<close> starts as \<^verbatim>\<open>false\<close>.
\<close>

definition restore ::
  "platform \<Rightarrow> keplr_env \<Rightarrow> wc_env \<Rightarrow> string option \<Rightarrow> world \<Rightarrow> (string + bool) \<times> world" where
  "restore p ke e connectedWalletType w =
    (if connectedWalletType = Some ''likerland_app'' then initWalletConnect p e w
     else if connectedWalletType = Some ''keplr'' then initKepr ke w
     else (Inr False, w))"

definition setupAccount :: "platform \<Rightarrow> keplr_env \<Rightarrow> wc_env \<Rightarrow> world \<Rightarrow> world" where
  "setupAccount p ke e w =
    (if \<not> keplr_defined ke then w
     else
       let connectedWalletType = getItem (storage w) KEY_CONNECTED_WALLET_TYPE;
           w1 = (emit (StorageGet KEY_CONNECTED_WALLET_TYPE) w)\<lparr>isLoading := True\<rparr>;
           (r, w2) = restore p ke e connectedWalletType w1
       in (set_error r w2)\<lparr>isLoading := False\<rparr>)"

definition connectWalletConnect :: "platform \<Rightarrow> wc_env \<Rightarrow> world \<Rightarrow> world" where
  "connectWalletConnect p e w =
    (let (r, w1) = initWalletConnect p e (w\<lparr>isLoading := True\<rparr>)
     in (set_error r w1)\<lparr>isLoading := False\<rparr>)"

definition connectKeplr :: "keplr_env \<Rightarrow> world \<Rightarrow> world" where
  "connectKeplr ke w =
    (if \<not> keplr_defined ke then w\<lparr>error := Some ''Keplr is not available''\<rparr>
     else
       let (r, w1) = initKepr ke (suggestChain ke (w\<lparr>isLoading := True\<rparr>))
       in (set_error r w1)\<lparr>isLoading := False\<rparr>)"

definition keystoreChangeHandler :: "keplr_env \<Rightarrow> world \<Rightarrow> world" where
  "keystoreChangeHandler ke w =
    (let w1 = emit (StorageGet KEY_CONNECTED_WALLET_TYPE) w in
     if getItem (storage w) KEY_CONNECTED_WALLET_TYPE = Some ''keplr''
     then snd (initKepr ke w1) else w1)"

text \<open>
  The two guards of lines 469 and 473: the account is falsy, or one of its three fields is.
\<close>

definition lacks_field :: "jv \<Rightarrow> bool" where
  "lacks_field account =
     (\<not> truthy account \<or> \<not> truthy (get_prop account ''bech32Address'') \<or>
      \<not> truthy (get_prop account ''algo'') \<or> \<not> truthy (get_prop account ''pubKey''))"

subsection \<open>Sessions and reachable states\<close>

text \<open>
  The provider has one pair of slots for a session: the wallet address and the signer.
  The session is injected or relayed according to the signer the slot holds. The
  consumers of the context read \<^verbatim>\<open>walletAddress\<close> to tell a connected wallet.
\<close>

definition is_connected :: "world \<Rightarrow> bool" where
  "is_connected w = (walletAddress w \<noteq> None)"

definition getSigner :: "world \<Rightarrow> signer option" where
  "getSigner w = offlineSigner w"

fun injected_active :: "world \<Rightarrow> bool" where
  "injected_active w = (case offlineSigner w of Some InjectedSigner \<Rightarrow> True | _ \<Rightarrow> False)"

fun relayed_active :: "world \<Rightarrow> bool" where
  "relayed_active w = (case offlineSigner w of Some (RelayedSigner a c) \<Rightarrow> True | _ \<Rightarrow> False)"

text \<open>
  The states of a process on the platform \<open>p\<close>: it starts on some store, and then runs
  the operations of the provider in any order, each against any answers of the outside;
  while a relayed signer is in place it may sign with it (the sign document is taken in
  a JSON form here: the state depends on the document through \<^verbatim>\<open>SignDoc.toJSON\<close>
  only).
\<close>

inductive reachable :: "platform \<Rightarrow> world \<Rightarrow> bool" for p :: platform where
  started: "reachable p (boot st)"
| restored: "reachable p w \<Longrightarrow> reachable p (setupAccount p ke e w)"
| injected: "reachable p w \<Longrightarrow> reachable p (connectKeplr ke w)"
| relayed: "reachable p w \<Longrightarrow> reachable p (connectWalletConnect p e w)"
| disconnected: "reachable p w \<Longrightarrow> reachable p (disconnect b w)"
| keystore_changed: "reachable p w \<Longrightarrow> reachable p (keystoreChangeHandler ke w)"
| signed_direct:
    "reachable p w \<Longrightarrow> offlineSigner w = Some (RelayedSigner acct c) \<Longrightarrow>
     reachable p (snd (signDirect p toJSON fromJSON answer c signerAddress (signDoc :: jv) w))"

text \<open>
  The ids of the requests sent so far, in the order of sending. In a process they are
  the values of the calls of \<^verbatim>\<open>payloadId()\<close> made so far, one call for each request.
\<close>

fun request_ids :: "event list \<Rightarrow> nat list" where
  "request_ids [] = []"
| "request_ids (WcRequest c r # evs) = req_id r # request_ids evs"
| "request_ids (ev # evs) = request_ids evs"

definition ids_inv :: "platform \<Rightarrow> world \<Rightarrow> bool" where
  "ids_inv p w = (request_ids (trace w) = map (payload_id p) [0..<id_calls w])"

text \<open>The events an operation adds to the trace, and the connector an event names.\<close>

definition new_events :: "world \<Rightarrow> world \<Rightarrow> event list" where
  "new_events w w' = drop (length (trace w)) (trace w')"

fun event_connector :: "event \<Rightarrow> nat option" where
  "event_connector (WcNew c) = Some c"
| "event_connector (WcKill c) = Some c"
| "event_connector (WcOn c) = Some c"
| "event_connector (WcConnect c) = Some c"
| "event_connector (WcRequest c r) = Some c"
| "event_connector ev = None"

fun is_pairing :: "event \<Rightarrow> bool" where
  "is_pairing (WcConnect c) = True"
| "is_pairing ev = False"

fun is_keplr_call :: "event \<Rightarrow> bool" where
  "is_keplr_call KeplrSuggestChain = True"
| "is_keplr_call KeplrEnable = True"
| "is_keplr_call KeplrGetSigner = True"
| "is_keplr_call KeplrGetAccounts = True"
| "is_keplr_call ev = False"

fun is_transport_call :: "event \<Rightarrow> bool" where
  "is_transport_call ev = (event_connector ev \<noteq> None)"

text \<open>
  The session slots agree: no signer and no address; or the signer of Keplr and a truthy
  address; or a relayed signer and the truthy address of its account.
\<close>

definition session_inv :: "world \<Rightarrow> bool" where
  "session_inv w =
     (case offlineSigner w of
        None \<Rightarrow> walletAddress w = None
      | Some InjectedSigner \<Rightarrow>
          (case walletAddress w of Some a \<Rightarrow> truthy a | None \<Rightarrow> False)
      | Some (RelayedSigner a c) \<Rightarrow> walletAddress w = Some (address a) \<and> truthy (address a))"

subsection \<open>Concrete platforms, answers and stores\<close>

text \<open>\<^verbatim>\<open>Buffer.from(s, 'hex')\<close> on a string: pairs of hex digits, up to the first other pair.\<close>

definition hex_digit :: "char \<Rightarrow> nat option" where
  "hex_digit c =
     map_of (zip ''0123456789abcdefABCDEF''
       [0, 1, 2, 3, 4, 5, 6, 7, 8, 9, 10, 11, 12, 13, 14, 15, 10, 11, 12, 13, 14, 15]) c"

fun hex_bytes :: "string \<Rightarrow> nat list" where
  "hex_bytes (a # b # cs) =
     (case (hex_digit a, hex_digit b) of
        (Some x, Some y) \<Rightarrow> (16 * x + y) # hex_bytes cs
      | _ \<Rightarrow> [])"
| "hex_bytes cs = []"

definition demo_account :: jv where
  "demo_account = JObj [(''bech32Address'', JStr ''cosmos1depub''),
     (''algo'', JStr ''secp256k1''), (''pubKey'', JStr ''02ab'')]"

definition demo_account_json :: string where
  "demo_account_json = ''{bech32Address:cosmos1depub,algo:secp256k1,pubKey:02ab}''"

text \<open>
  A platform that serialises and parses \<open>demo_account\<close> and nothing else; its
  \<^verbatim>\<open>payloadId\<close> counts from 1000.
\<close>

definition demo_platform :: platform where
  "demo_platform =
     \<lparr>json_parse = (\<lambda>s. if s = demo_account_json then Inr demo_account else Inl ''SyntaxError''),
      json_stringify = (\<lambda>v. if v = demo_account then demo_account_json else ''null''),
      buffer_from_hex = (\<lambda>v. case v of JStr s \<Rightarrow> Inr (hex_bytes s) | _ \<Rightarrow> Inl ''TypeError''),
      payload_id = (\<lambda>n. 1000 + n),
      chain_id = ''likecoin-mainnet-2''\<rparr>"

definition keplr_accounts :: jv where
  "keplr_accounts = JArr [JObj [(''address'', JStr ''cosmos1keplr''),
     (''algo'', JStr ''secp256k1'')]]"

definition no_keplr :: keplr_env where
  "no_keplr = \<lparr>keplr_defined = False, suggest_chain = None, enable = None,
     get_signer = None, get_accounts = Inr (JArr []), persist_keplr = None\<rparr>"

definition keplr_ok :: keplr_env where
  "keplr_ok = \<lparr>keplr_defined = True, suggest_chain = None, enable = None,
     get_signer = None, get_accounts = Inr keplr_accounts, persist_keplr = None\<rparr>"

definition keplr_rejects :: keplr_env where
  "keplr_rejects = \<lparr>keplr_defined = True, suggest_chain = None,
     enable = Some ''Request rejected'', get_signer = None,
     get_accounts = Inr keplr_accounts, persist_keplr = None\<rparr>"

text \<open>A peer that pairs as \<open>peer1\<close> and answers every request with \<open>res\<close>.\<close>

definition wc_pairing :: "jv \<Rightarrow> wc_env" where
  "wc_pairing res = \<lparr>first_connected = False, first_peerId = [], kill_session = None,
     second_connected = False, second_peerId = [], connect = Inr ''peer1'',
     respond = (\<lambda>r. Inr res), persist_account = None, persist_relayed = None\<rparr>"

text \<open>A transport on which every connector object reports the session with \<open>peer1\<close> live.\<close>

definition wc_live :: wc_env where
  "wc_live = \<lparr>first_connected = True, first_peerId = ''peer1'', kill_session = None,
     second_connected = True, second_peerId = ''peer1'', connect = Inl ''not paired'',
     respond = (\<lambda>r. Inl ''no answer''), persist_account = None, persist_relayed = None\<rparr>"

text \<open>
  A transport whose first object reports the session with \<open>peer1\<close> live and whose second
  object, built after the kill, does not; the peer then pairs as \<open>peer2\<close>.
\<close>

definition wc_stale :: wc_env where
  "wc_stale = \<lparr>first_connected = True, first_peerId = ''peer1'', kill_session = None,
     second_connected = False, second_peerId = [], connect = Inr ''peer2'',
     respond = (\<lambda>r. Inr (JArr [demo_account])), persist_account = None,
     persist_relayed = None\<rparr>"

definition relayed_store :: store where
  "relayed_store = [(KEY_CONNECTED_WALLET_TYPE, ''likerland_app''),
     (KEY_WALLET_CONNECT, ''{session}''), (account_key ''peer1'', demo_account_json)]"

definition orphan_store :: store where
  "orphan_store = [(KEY_CONNECTED_WALLET_TYPE, ''likerland_app''),
     (KEY_WALLET_CONNECT, ''{session}'')]"

definition keplr_store :: store where
  "keplr_store = [(KEY_CONNECTED_WALLET_TYPE, ''keplr'')]"

text \<open>The answer of a peer whose account has the number 1 as its address.\<close>

definition numeric_address :: jv where
  "numeric_address = JArr [JObj [(''bech32Address'', JNum 1), (''algo'', JStr ''secp256k1''),
     (''pubKey'', JStr ''02ab'')]]"

text \<open>The answer of a peer whose account has no \<^verbatim>\<open>bech32Address\<close>.\<close>

definition missing_address :: jv where
  "missing_address = JArr [JObj [(''algo'', JStr ''secp256k1''), (''pubKey'', JStr ''02ab'')]]"

text \<open>The state after a first relayed connect with a peer that answers \<open>demo_account\<close>.\<close>

definition paired_world :: world where
  "paired_world = connectWalletConnect demo_platform (wc_pairing (JArr [demo_account])) (boot [])"

text \<open>A sign document, here already in its JSON form, and the answer of a peer to it.\<close>

definition demo_signed :: jv where
  "demo_signed = JObj [(''signed'', JObj [(''chainId'', JStr ''likecoin-mainnet-2'')]),
     (''signature'', JObj [(''signature'', JStr ''c2ln'')])]"

definition demo_doc :: jv where
  "demo_doc = JObj [(''chainId'', JStr ''likecoin-mainnet-2'')]"

section \<open>Properties\<close>

subsection \<open>The store\<close>

lemmas run_defs =
  connectWalletConnect_def setupAccount_def restore_def connectKeplr_def suggestChain_def initKepr_def
  initWalletConnect_def wc_construct_def wc_account_def wc_finish_def set_error_def
  emit_def boot_def Let_def getItem_def setItem_def removeItem_def new_events_def
  getAccounts_request_def

lemmas key_defs =
  KEY_CONNECTED_WALLET_TYPE_def KEY_WALLET_CONNECT_def KEY_WALLET_CONNECT_ACCOUNT_PREFIX_def
  account_key_def

lemma getItem_removeItem:
  "getItem (removeItem k st) k' = (if k' = k then None else getItem st k')"
  by (simp add: getItem_def removeItem_def delete_conv')

lemma getItem_setItem:
  "getItem (setItem k v st) k' = (if k' = k then Some v else getItem st k')"
  by (simp add: getItem_def setItem_def update_conv')

lemma getItem_fold_removeItem:
  "getItem (fold removeItem ks st) k = (if k \<in> set ks then None else getItem st k)"
  by (induction ks arbitrary: st) (auto simp: getItem_removeItem)

lemma getItem_None_iff: "getItem st k = None \<longleftrightarrow> k \<notin> set (getAllKeys st)"
  by (simp add: getItem_def getAllKeys_def map_of_eq_None_iff)

lemma is_account_key_account_key: "is_account_key (account_key peer)"
  by (simp add: is_account_key_def account_key_def)

lemma type_key_not_account_key: "KEY_CONNECTED_WALLET_TYPE \<noteq> account_key peer"
  by (simp add: account_key_def KEY_CONNECTED_WALLET_TYPE_def
      KEY_WALLET_CONNECT_ACCOUNT_PREFIX_def)

lemma session_key_not_account_key: "KEY_WALLET_CONNECT \<noteq> account_key peer"
  by (simp add: account_key_def KEY_WALLET_CONNECT_def KEY_WALLET_CONNECT_ACCOUNT_PREFIX_def)

lemma type_key_not_session_key: "KEY_CONNECTED_WALLET_TYPE \<noteq> KEY_WALLET_CONNECT"
  by (simp add: KEY_WALLET_CONNECT_def KEY_CONNECTED_WALLET_TYPE_def)

subsection \<open>disconnect\<close>

lemma storage_disconnect:
  "storage (disconnect nc w) =
     removeItem KEY_WALLET_CONNECT (removeItem KEY_CONNECTED_WALLET_TYPE
       (fold removeItem (filter is_account_key (getAllKeys (storage w))) (storage w)))"
  by (simp add: disconnect_def Let_def emit_def split: option.splits)

lemma disconnect_no_account_key:
  "is_account_key k \<Longrightarrow> getItem (storage (disconnect nc w)) k = None"
  using getItem_None_iff [of "storage w" k]
  by (auto simp: storage_disconnect getItem_removeItem getItem_fold_removeItem)

text \<open>
  C1. Whatever the state and whatever the connector reports, after \<^verbatim>\<open>disconnect\<close> the
  wallet address and the signer are absent, and the store holds no entry for the
  connected wallet type, none for the WalletConnect session, and no account cached
  for any peer id: no key of the store has the prefix of the account keys.
\<close>

theorem disconnect_clears_session:
  "walletAddress (disconnect nc w) = None \<and>
   offlineSigner (disconnect nc w) = None \<and>
   getSigner (disconnect nc w) = None \<and>
   getItem (storage (disconnect nc w)) KEY_CONNECTED_WALLET_TYPE = None \<and>
   getItem (storage (disconnect nc w)) KEY_WALLET_CONNECT = None \<and>
   (\<forall>peer. getItem (storage (disconnect nc w)) (account_key peer) = None) \<and>
   filter is_account_key (getAllKeys (storage (disconnect nc w))) = []"
proof -
  have a: "walletAddress (disconnect nc w) = None" "offlineSigner (disconnect nc w) = None"
    by (simp_all add: disconnect_def Let_def split: option.splits)
  have b: "getItem (storage (disconnect nc w)) KEY_CONNECTED_WALLET_TYPE = None"
    by (simp add: storage_disconnect getItem_removeItem)
  have c: "getItem (storage (disconnect nc w)) KEY_WALLET_CONNECT = None"
    by (simp add: storage_disconnect getItem_removeItem)
  have d: "\<forall>peer. getItem (storage (disconnect nc w)) (account_key peer) = None"
    by (simp add: disconnect_no_account_key is_account_key_account_key)
  have e: "filter is_account_key (getAllKeys (storage (disconnect nc w))) = []"
    using disconnect_no_account_key [of _ nc w]
    by (auto simp: filter_empty_conv getItem_None_iff)
  from a b c d e show ?thesis by (simp add: getSigner_def)
qed

subsection \<open>The injected provider is absent\<close>

text \<open>
  C9. When \<^verbatim>\<open>window.keplr\<close> is undefined, \<^verbatim>\<open>connectKeplr\<close> only records the error
  \<^verbatim>\<open>Keplr is not available\<close>: it makes no external call (the trace is unchanged, so
  neither \<^verbatim>\<open>enable\<close> nor \<^verbatim>\<open>getAccounts\<close> is called), and the wallet address, the
  signer, the connector, the loading flag and the store are as before.
\<close>

theorem connectKeplr_provider_unavailable:
  "\<not> keplr_defined ke \<Longrightarrow>
     connectKeplr ke w = w\<lparr>error := Some ''Keplr is not available''\<rparr> \<and>
     error (connectKeplr ke w) = Some ''Keplr is not available'' \<and>
     trace (connectKeplr ke w) = trace w \<and>
     walletAddress (connectKeplr ke w) = walletAddress w \<and>
     offlineSigner (connectKeplr ke w) = offlineSigner w \<and>
     connector (connectKeplr ke w) = connector w \<and>
     storage (connectKeplr ke w) = storage w"
  by (simp add: connectKeplr_def)

theorem connectKeplr_provider_unavailable_witness:
  "\<not> keplr_defined no_keplr \<and>
   connectKeplr no_keplr (boot keplr_store) =
     (boot keplr_store)\<lparr>error := Some ''Keplr is not available''\<rparr> \<and>
   trace (connectKeplr no_keplr (boot keplr_store)) = [] \<and>
   storage (connectKeplr no_keplr (boot keplr_store)) = keplr_store"
proof -
  have h: "\<not> keplr_defined no_keplr"
    by (simp add: no_keplr_def)
  from connectKeplr_provider_unavailable [OF h, of "boot keplr_store"]
  show ?thesis using h by (simp add: boot_def)
qed

text \<open>
  C10. When \<^verbatim>\<open>window.keplr\<close> is undefined, \<^verbatim>\<open>setupAccount\<close> returns at once: the
  state is unchanged and the trace has no new event, so the persisted wallet type is
  not read and no backend is asked to restore. A process that starts on any store,
  also one that holds a relayed session, stays without wallet address and signer.
\<close>

theorem setupAccount_returns_without_keplr:
  "\<not> keplr_defined ke \<Longrightarrow>
     setupAccount p ke e w = w \<and>
     new_events w (setupAccount p ke e w) = [] \<and>
     trace (setupAccount p ke e (boot st)) = [] \<and>
     walletAddress (setupAccount p ke e (boot st)) = None \<and>
     offlineSigner (setupAccount p ke e (boot st)) = None"
  by (simp add: setupAccount_def new_events_def boot_def)

theorem setupAccount_returns_without_keplr_witness:
  "\<not> keplr_defined no_keplr \<and>
   getItem relayed_store KEY_CONNECTED_WALLET_TYPE = Some ''likerland_app'' \<and>
   setupAccount demo_platform no_keplr wc_live (boot relayed_store) = boot relayed_store \<and>
   walletAddress (setupAccount demo_platform no_keplr wc_live (boot relayed_store)) = None"
proof -
  have h: "\<not> keplr_defined no_keplr"
    by (simp add: no_keplr_def)
  have s: "getItem relayed_store KEY_CONNECTED_WALLET_TYPE = Some ''likerland_app''"
    by (simp add: relayed_store_def getItem_def)
  from setupAccount_returns_without_keplr [OF h, of demo_platform wc_live "boot relayed_store" relayed_store]
  show ?thesis using h s by (simp add: boot_def)
qed

subsection \<open>The phases of initWalletConnect\<close>

lemma wc_construct_frame:
  assumes "wc_construct e w = (r, w1)"
  shows "walletAddress w1 = walletAddress w" "offlineSigner w1 = offlineSigner w"
    "storage w1 = storage w" "error w1 = error w" "isLoading w1 = isLoading w"
    "id_calls w1 = id_calls w" "connector w1 = Some (next_obj w)"
  using assms
  by (auto simp: wc_construct_def Let_def emit_def split: if_splits option.splits)

lemma wc_construct_result:
  assumes "wc_construct e w = (r, w1)"
  shows "r = (if first_connected e then
               (case kill_session e of Some m \<Rightarrow> Inl m
                | None \<Rightarrow> Inr (Suc (next_obj w), second_connected e, second_peerId e))
             else Inr (next_obj w, False, first_peerId e))"
    and "trace w1 = trace w @ WcNew (next_obj w) #
           (if first_connected e then
              WcKill (next_obj w) #
                (case kill_session e of Some m \<Rightarrow> [] | None \<Rightarrow> [WcNew (Suc (next_obj w))])
            else [])"
  using assms
  by (auto simp: wc_construct_def Let_def emit_def split: if_splits option.splits)

lemma wc_account_frame:
  assumes "wc_account p e cn w = (r, w1)"
  shows "walletAddress w1 = walletAddress w" "offlineSigner w1 = offlineSigner w"
    "error w1 = error w" "isLoading w1 = isLoading w" "connector w1 = connector w"
    "getItem (storage w1) KEY_CONNECTED_WALLET_TYPE = getItem (storage w) KEY_CONNECTED_WALLET_TYPE"
  using assms
  by (auto simp: wc_account_def Let_def emit_def getItem_setItem getItem_removeItem
      type_key_not_account_key type_key_not_session_key
      split: if_splits option.splits sum.splits prod.splits list.splits)

lemma wc_account_trace:
  assumes "wc_account p e (c, conn, peer) w = (r, w1)"
  shows "trace w1 = trace w @
           (if conn then [StorageGet (account_key peer), StorageGet KEY_WALLET_CONNECT]
            else WcConnect c #
              (case connect e of Inl m \<Rightarrow> []
               | Inr peer' \<Rightarrow> [WcRequest c (getAccounts_request p (id_calls w))]))"
  using assms
  by (auto simp: wc_account_def Let_def emit_def
      split: if_splits option.splits sum.splits list.splits)

lemma wc_finish_frame:
  assumes "wc_finish p e c account w = (r, w1)"
  shows "trace w1 = trace w" "error w1 = error w" "isLoading w1 = isLoading w"
    "connector w1 = connector w" "id_calls w1 = id_calls w"
  using assms
  by (auto simp: wc_finish_def Let_def split: if_splits sum.splits option.splits)

lemma wc_finish_failed:
  assumes "wc_finish p e c account w = (r, w1)" "r \<noteq> Inr True"
  shows "storage w1 = storage w" "persist_relayed e = None \<Longrightarrow> w1 = w"
  using assms
  by (auto simp: wc_finish_def Let_def split: if_splits sum.splits option.splits)

lemma wc_finish_lacking:
  assumes "wc_finish p e c account w = (r, w1)" "lacks_field account"
  shows "r = Inr False" "w1 = w"
  using assms
  by (auto simp: wc_finish_def Let_def lacks_field_def split: if_splits)

lemma wc_finish_session:
  assumes "wc_finish p e c account w = (r, w1)"
  shows "(walletAddress w1 = walletAddress w \<and> offlineSigner w1 = offlineSigner w) \<or>
    (\<exists>a. truthy (address a) \<and> walletAddress w1 = Some (address a) \<and>
       offlineSigner w1 = Some (RelayedSigner a c))"
  using assms
  by (auto simp: wc_finish_def Let_def split: if_splits sum.splits option.splits)

lemma wc_finish_succeeded:
  assumes "wc_finish p e c account w = (Inr True, w1)"
  shows "truthy account" "truthy (get_prop account ''bech32Address'')"
    "truthy (get_prop account ''algo'')" "truthy (get_prop account ''pubKey'')"
    "\<exists>bytes. buffer_from_hex p (get_prop account ''pubKey'') = Inr bytes \<and>
       w1 = w\<lparr>walletAddress := Some (get_prop account ''bech32Address''),
              offlineSigner := Some (RelayedSigner
                \<lparr>address = get_prop account ''bech32Address'', pubkey = bytes,
                 algo = get_prop account ''algo''\<rparr> c),
              storage := setItem KEY_CONNECTED_WALLET_TYPE ''likerland_app'' (storage w)\<rparr>"
    "persist_relayed e = None"
  using assms
  by (auto simp: wc_finish_def Let_def split: if_splits sum.splits option.splits)

lemma initWalletConnect_cases:
  assumes "initWalletConnect p e w = (r, w')"
  obtains (construct_failed) m where "wc_construct e w = (Inl m, w')" "r = Inl m"
  | (account_failed) cn w1 m where "wc_construct e w = (Inr cn, w1)"
      "wc_account p e cn (emit (WcOn (fst cn)) w1) = (Inl m, w')" "r = Inl m"
  | (finished) cn w1 account w2 where "wc_construct e w = (Inr cn, w1)"
      "wc_account p e cn (emit (WcOn (fst cn)) w1) = (Inr account, w2)"
      "wc_finish p e (fst cn) account w2 = (r, w')"
  using assms
  by (auto simp: initWalletConnect_def split: prod.splits sum.splits)

lemma new_events_append: "trace w' = trace w @ evs \<Longrightarrow> new_events w w' = evs"
  by (simp add: new_events_def)

lemma trace_emit: "trace (emit ev w) = trace w @ [ev]"
  by (simp add: emit_def)

lemma emit_frame:
  "walletAddress (emit ev w) = walletAddress w" "offlineSigner (emit ev w) = offlineSigner w"
  "connector (emit ev w) = connector w" "isLoading (emit ev w) = isLoading w"
  "error (emit ev w) = error w" "storage (emit ev w) = storage w"
  "next_obj (emit ev w) = next_obj w" "id_calls (emit ev w) = id_calls w"
  by (simp_all add: emit_def)

lemma initWalletConnect_trace:
  assumes "initWalletConnect p e w = (r, w')"
  shows "trace w' = trace w @ WcNew (next_obj w) #
     (if first_connected e then
        WcKill (next_obj w) #
          (case kill_session e of
             Some m \<Rightarrow> []
           | None \<Rightarrow>
               WcNew (Suc (next_obj w)) # WcOn (Suc (next_obj w)) #
                 (if second_connected e
                  then [StorageGet (account_key (second_peerId e)), StorageGet KEY_WALLET_CONNECT]
                  else WcConnect (Suc (next_obj w)) #
                    (case connect e of
                       Inl m \<Rightarrow> []
                     | Inr peer \<Rightarrow>
                         [WcRequest (Suc (next_obj w)) (getAccounts_request p (id_calls w))])))
      else
        WcOn (next_obj w) # WcConnect (next_obj w) #
          (case connect e of
             Inl m \<Rightarrow> []
           | Inr peer \<Rightarrow> [WcRequest (next_obj w) (getAccounts_request p (id_calls w))]))"
  using assms
proof (cases rule: initWalletConnect_cases)
  case (construct_failed m)
  from wc_construct_result [OF construct_failed(1)] show ?thesis
    by (auto split: if_splits option.splits)
next
  case (account_failed cn w1 m)
  obtain c conn peer where cn: "cn = (c, conn, peer)" by (cases cn) auto
  from wc_construct_result [OF account_failed(1)] wc_construct_frame(6) [OF account_failed(1)]
    wc_account_trace [OF account_failed(2) [unfolded cn]]
  show ?thesis
    by (auto simp: cn trace_emit emit_frame split: if_splits option.splits sum.splits)
next
  case (finished cn w1 account w2)
  obtain c conn peer where cn: "cn = (c, conn, peer)" by (cases cn) auto
  from wc_construct_result [OF finished(1)] wc_construct_frame(6) [OF finished(1)]
    wc_account_trace [OF finished(2) [unfolded cn]] wc_finish_frame(1) [OF finished(3)]
  show ?thesis
    by (auto simp: cn trace_emit emit_frame split: if_splits option.splits sum.splits)
qed

lemma initWalletConnect_signer:
  assumes "initWalletConnect p e w = (Inr True, w')"
  shows "\<exists>a. offlineSigner w' =
           Some (RelayedSigner a (if first_connected e then Suc (next_obj w) else next_obj w)) \<and>
         walletAddress w' = Some (address a) \<and> truthy (address a)"
  using assms
proof (cases rule: initWalletConnect_cases)
  case (finished cn w1 account w2)
  from wc_finish_succeeded(2,5) [OF finished(3)] wc_construct_result(1) [OF finished(1)]
  show ?thesis
    by (auto split: if_splits option.splits)
qed simp_all

lemma initWalletConnect_failed:
  assumes "initWalletConnect p e w = (r, w')" "r \<noteq> Inr True"
  shows "getItem (storage w') KEY_CONNECTED_WALLET_TYPE =
      getItem (storage w) KEY_CONNECTED_WALLET_TYPE \<and>
    error w' = error w \<and> isLoading w' = isLoading w \<and>
    (persist_relayed e = None \<longrightarrow>
       walletAddress w' = walletAddress w \<and> offlineSigner w' = offlineSigner w)"
  using assms(1)
proof (cases rule: initWalletConnect_cases)
  case (construct_failed m)
  show ?thesis using wc_construct_frame [OF construct_failed(1)] by simp
next
  case (account_failed cn w1 m)
  show ?thesis
    using wc_construct_frame [OF account_failed(1)] wc_account_frame [OF account_failed(2)]
    by (simp add: emit_frame)
next
  case (finished cn w1 account w2)
  note f = wc_finish_failed [OF finished(3) assms(2)] wc_finish_frame [OF finished(3)]
  show ?thesis
  proof (cases "persist_relayed e = None")
    case True
    with f(2) have "w' = w2" by simp
    then show ?thesis
      using wc_construct_frame [OF finished(1)] wc_account_frame [OF finished(2)]
      by (simp add: emit_frame)
  next
    case False
    then show ?thesis
      using f(1,4,5) wc_construct_frame [OF finished(1)] wc_account_frame [OF finished(2)]
      by (auto simp: emit_frame)
  qed
qed

lemma initWalletConnect_session:
  assumes "initWalletConnect p e w = (r, w')"
  shows "(walletAddress w' = walletAddress w \<and> offlineSigner w' = offlineSigner w) \<or>
    (\<exists>a c. truthy (address a) \<and> walletAddress w' = Some (address a) \<and>
       offlineSigner w' = Some (RelayedSigner a c))"
  using assms
proof (cases rule: initWalletConnect_cases)
  case (construct_failed m)
  show ?thesis using wc_construct_frame [OF construct_failed(1)] by simp
next
  case (account_failed cn w1 m)
  show ?thesis
    using wc_construct_frame [OF account_failed(1)] wc_account_frame [OF account_failed(2)]
    by (simp add: emit_frame)
next
  case (finished cn w1 account w2)
  from wc_finish_session [OF finished(3)] show ?thesis
    using wc_construct_frame [OF finished(1)] wc_account_frame [OF finished(2)]
    by (auto simp: emit_frame)
qed

subsection \<open>Teardown of a connected transport\<close>

text \<open>
  C7. When the connector object that \<^verbatim>\<open>initWalletConnect\<close> constructs first (the one
  that takes up a transport session left by an earlier pairing) reports itself
  connected, the calls of the attempt are, in this order: the construction of that
  object, its \<^verbatim>\<open>killSession\<close>, and only if the kill resolves the construction of a second
  object, on which the disconnect handler is registered and through which every later
  call goes (the lookup of a restored session, or \<^verbatim>\<open>connect\<close> and the account request
  of a fresh pairing). The first object is never used after its kill, and the signer of a
  session that results is bound to the second object. If the kill rejects, the attempt
  ends with that error.
\<close>

theorem initWalletConnect_kills_connected_transport:
  assumes "first_connected e" and "initWalletConnect p e w = (r, w')"
  shows "new_events w w' =
      WcNew (next_obj w) # WcKill (next_obj w) #
        (case kill_session e of
           Some m \<Rightarrow> []
         | None \<Rightarrow>
             WcNew (Suc (next_obj w)) # WcOn (Suc (next_obj w)) #
               (if second_connected e
                then [StorageGet (account_key (second_peerId e)), StorageGet KEY_WALLET_CONNECT]
                else WcConnect (Suc (next_obj w)) #
                  (case connect e of
                     Inl m \<Rightarrow> []
                   | Inr peer \<Rightarrow>
                       [WcRequest (Suc (next_obj w)) (getAccounts_request p (id_calls w))]))) \<and>
    filter (\<lambda>ev. event_connector ev = Some (next_obj w)) (new_events w w') =
      [WcNew (next_obj w), WcKill (next_obj w)] \<and>
    (\<forall>m. kill_session e = Some m \<longrightarrow> r = Inl m) \<and>
    (r = Inr True \<longrightarrow>
       (\<exists>a. offlineSigner w' = Some (RelayedSigner a (Suc (next_obj w)))))"
proof -
  have t: "new_events w w' =
      WcNew (next_obj w) # WcKill (next_obj w) #
        (case kill_session e of
           Some m \<Rightarrow> []
         | None \<Rightarrow>
             WcNew (Suc (next_obj w)) # WcOn (Suc (next_obj w)) #
               (if second_connected e
                then [StorageGet (account_key (second_peerId e)), StorageGet KEY_WALLET_CONNECT]
                else WcConnect (Suc (next_obj w)) #
                  (case connect e of
                     Inl m \<Rightarrow> []
                   | Inr peer \<Rightarrow>
                       [WcRequest (Suc (next_obj w)) (getAccounts_request p (id_calls w))])))"
    using initWalletConnect_trace [OF assms(2)] assms(1)
    by (simp add: new_events_def)
  have f: "filter (\<lambda>ev. event_connector ev = Some (next_obj w)) (new_events w w') =
      [WcNew (next_obj w), WcKill (next_obj w)]"
    unfolding t by (simp split: option.splits sum.splits)
  have k: "\<forall>m. kill_session e = Some m \<longrightarrow> r = Inl m"
    using assms
    by (auto simp: initWalletConnect_def wc_construct_def Let_def split: prod.splits sum.splits)
  have s: "r = Inr True \<longrightarrow>
       (\<exists>a. offlineSigner w' = Some (RelayedSigner a (Suc (next_obj w))))"
    using initWalletConnect_signer [of p e w w'] assms by auto
  from t f k s show ?thesis by blast
qed

theorem initWalletConnect_kills_connected_transport_witness:
  "first_connected wc_stale \<and>
   new_events (boot relayed_store)
     (snd (initWalletConnect demo_platform wc_stale (boot relayed_store))) =
     [WcNew 0, WcKill 0, WcNew 1, WcOn 1, WcConnect 1,
      WcRequest 1 (getAccounts_request demo_platform 0)] \<and>
   filter (\<lambda>ev. event_connector ev = Some 0)
     (new_events (boot relayed_store)
       (snd (initWalletConnect demo_platform wc_stale (boot relayed_store)))) =
     [WcNew 0, WcKill 0]"
proof -
  have h: "first_connected wc_stale"
    by (simp add: wc_stale_def)
  have e: "kill_session wc_stale = None" "\<not> second_connected wc_stale"
    "connect wc_stale = Inr ''peer2''"
    by (simp_all add: wc_stale_def)
  have b: "next_obj (boot relayed_store) = 0" "id_calls (boot relayed_store) = 0"
    by (simp_all add: boot_def)
  from initWalletConnect_kills_connected_transport [where e = wc_stale and p = demo_platform
      and w = "boot relayed_store", OF h surjective_pairing]
  show ?thesis using h by (simp add: e b)
qed

text \<open>
  Whatever the attempt does, the connector cell of the state holds the object that was
  constructed first, also when that object was killed and a second one is in use.
\<close>

lemma initWalletConnect_stores_first_object:
  assumes "initWalletConnect p e w = (r, w')"
  shows "connector w' = Some (next_obj w)"
  using assms
proof (cases rule: initWalletConnect_cases)
  case (construct_failed m)
  from wc_construct_frame(7) [OF construct_failed(1)] show ?thesis .
next
  case (account_failed cn w1 m)
  from wc_construct_frame(7) [OF account_failed(1)] wc_account_frame(5) [OF account_failed(2)]
  show ?thesis by (simp add: emit_frame)
next
  case (finished cn w1 account w2)
  from wc_construct_frame(7) [OF finished(1)] wc_account_frame(5) [OF finished(2)]
    wc_finish_frame(4) [OF finished(3)]
  show ?thesis by (simp add: emit_frame)
qed

subsection \<open>Restoring without a cached account\<close>

lemma wc_account_restoring_without_cache:
  assumes "wc_account p e (c, True, peer) w = (r, w1)"
    and "getItem (storage w) (account_key peer) = None"
  shows "r = Inr JUndef" 
    "getItem (storage w) KEY_WALLET_CONNECT \<noteq> Some [] \<Longrightarrow>
       getItem (storage w1) KEY_WALLET_CONNECT = None"
    "getItem (storage w) KEY_WALLET_CONNECT = Some [] \<Longrightarrow> storage w1 = storage w"
    "\<forall>k. k \<noteq> KEY_WALLET_CONNECT \<longrightarrow> getItem (storage w1) k = getItem (storage w) k"
  using assms
  by (auto simp: wc_account_def Let_def emit_frame getItem_removeItem
      split: option.splits list.splits)

text \<open>
  An entry for the session that is the empty string is falsy for the test of line 463,
  and stays in the store.
\<close>

lemma restoration_keeps_empty_session_record:
  assumes "first_connected e" and "kill_session e = None" and "second_connected e"
    and "getItem (storage w) (account_key (second_peerId e)) = None"
    and "getItem (storage w) KEY_WALLET_CONNECT = Some []"
    and "initWalletConnect p e w = (r, w')"
  shows "r = Inr False \<and> storage w' = storage w"
  using assms
  by (auto simp: initWalletConnect_def wc_construct_def wc_account_def wc_finish_def Let_def
      emit_frame split: prod.splits sum.splits option.splits list.splits if_splits)

text \<open>
  What the restoring branch (lines 453 to 467) does once it is reached: the attempt holds
  a connector that reports itself connected, which after lines 416 to 427 is the second
  object, built after the kill of a connected first one. With no account cached under
  the key of its peer id the attempt returns \<^verbatim>\<open>false\<close>, a non-empty session record
  is gone from the store, the session slots and the recorded wallet type are as before,
  and no pairing was asked for.
\<close>

lemma restoring_branch_discards_orphan_session:
  assumes "first_connected e" and "kill_session e = None" and "second_connected e"
    and "getItem (storage w) (account_key (second_peerId e)) = None"
    and "getItem (storage w) KEY_WALLET_CONNECT \<noteq> Some []"
    and "initWalletConnect p e w = (r, w')"
  shows "r = Inr False \<and>
    getItem (storage w') KEY_WALLET_CONNECT = None \<and>
    walletAddress w' = walletAddress w \<and>
    offlineSigner w' = offlineSigner w \<and>
    getItem (storage w') KEY_CONNECTED_WALLET_TYPE = getItem (storage w) KEY_CONNECTED_WALLET_TYPE \<and>
    filter is_pairing (new_events w w') = []"
  using assms(6)
proof (cases rule: initWalletConnect_cases)
  case (construct_failed m)
  with wc_construct_result(1) [OF construct_failed(1)] assms(1,2) show ?thesis by simp
next
  case (account_failed cn w1 m)
  from wc_construct_result(1) [OF account_failed(1)] assms(1,2,3)
  have cn: "cn = (Suc (next_obj w), True, second_peerId e)" by simp
  from wc_account_restoring_without_cache(1) [OF account_failed(2) [unfolded cn]]
    wc_construct_frame(3) [OF account_failed(1)] assms(4)
  show ?thesis by (simp add: emit_frame)
next
  case (finished cn w1 account w2)
  from wc_construct_result(1) [OF finished(1)] assms(1,2,3)
  have cn: "cn = (Suc (next_obj w), True, second_peerId e)" by simp
  have st: "storage (emit (WcOn (fst (Suc (next_obj w), True, second_peerId e))) w1) = storage w"
    using wc_construct_frame(3) [OF finished(1)] by (simp add: emit_frame)
  note acc = wc_account_restoring_without_cache [OF finished(2) [unfolded cn], unfolded st, OF assms(4)]
  from acc(1) have "account = JUndef" by simp
  with finished(3) have r: "r = Inr False" and w: "w' = w2"
    by (simp_all add: wc_finish_def)
  have r': "r \<noteq> Inr True" using r by simp
  have tr: "filter is_pairing (new_events w w') = []"
    using initWalletConnect_trace [OF assms(6)] assms(1,2,3) by (simp add: new_events_def)
  from r w acc(2) [OF assms(5)] initWalletConnect_failed [OF assms(6) r'] tr
    wc_construct_frame(1,2) [OF finished(1)] wc_account_frame(1,2) [OF finished(2)]
  show ?thesis by (simp add: emit_frame)
qed

text \<open>
  Whether the branch is reached is not for the store to decide. When the first object
  reports the session live, it is killed; if the object built after the kill does not
  report a session, the attempt pairs anew and leaves the session record alone.
\<close>

lemma kill_then_pairing:
  assumes "first_connected e" and "kill_session e = None" and "\<not> second_connected e"
    and "initWalletConnect p e w = (r, w')"
  shows "filter is_pairing (new_events w w') = [WcConnect (Suc (next_obj w))] \<and>
    getItem (storage w') KEY_WALLET_CONNECT = getItem (storage w) KEY_WALLET_CONNECT"
proof -
  have t: "filter is_pairing (new_events w w') = [WcConnect (Suc (next_obj w))]"
    using initWalletConnect_trace [OF assms(4)] assms(1,2,3)
    by (simp add: new_events_def split: sum.splits)
  have s: "getItem (storage w') KEY_WALLET_CONNECT = getItem (storage w) KEY_WALLET_CONNECT"
    using assms
    by (auto simp: initWalletConnect_def wc_construct_def wc_account_def wc_finish_def Let_def
        emit_frame getItem_setItem session_key_not_account_key type_key_not_session_key
        type_key_not_session_key [symmetric]
        split: prod.splits sum.splits option.splits if_splits)
  from t s show ?thesis by simp
qed

text \<open>
  C6. The claim does not hold of the code at this input: the store records the relayed
  wallet type and a session, and caches no account; the first connector object reports
  the session with \<open>peer1\<close> live; \<^verbatim>\<open>killSession\<close> resolves and the object built after
  it reports no session; the peer then pairs as \<open>peer2\<close> and answers a valid account. The
  startup restoration kills the first object, calls \<^verbatim>\<open>connect\<close>, never reaches lines 453
  to 467, leaves the session record in the store and ends with an address and a signer.
\<close>

theorem restoration_pairs_instead_of_discarding:
  "getItem orphan_store KEY_CONNECTED_WALLET_TYPE = Some ''likerland_app'' \<and>
   getItem orphan_store KEY_WALLET_CONNECT = Some ''{session}'' \<and>
   getItem orphan_store (account_key ''peer1'') = None \<and>
   first_connected wc_stale \<and> first_peerId wc_stale = ''peer1'' \<and>
   trace (setupAccount demo_platform keplr_ok wc_stale (boot orphan_store)) =
     [StorageGet KEY_CONNECTED_WALLET_TYPE, WcNew 0, WcKill 0, WcNew 1, WcOn 1, WcConnect 1,
      WcRequest 1 (getAccounts_request demo_platform 0)] \<and>
   getItem (storage (setupAccount demo_platform keplr_ok wc_stale (boot orphan_store)))
     KEY_WALLET_CONNECT = Some ''{session}'' \<and>
   walletAddress (setupAccount demo_platform keplr_ok wc_stale (boot orphan_store)) =
     Some (JStr ''cosmos1depub'') \<and>
   getSigner (setupAccount demo_platform keplr_ok wc_stale (boot orphan_store)) \<noteq> None"
  by (simp add: run_defs key_defs orphan_store_def keplr_ok_def wc_stale_def
      demo_platform_def demo_account_def getSigner_def)

subsection \<open>A handshake answer that is rejected\<close>

lemma connectWalletConnect_eq:
  assumes "initWalletConnect p e (w\<lparr>isLoading := True\<rparr>) = (r, w1)"
  shows "connectWalletConnect p e w = (set_error r w1)\<lparr>isLoading := False\<rparr>"
  using assms by (simp add: connectWalletConnect_def)

lemma set_error_frame:
  "walletAddress (set_error r w) = walletAddress w" "offlineSigner (set_error r w) = offlineSigner w"
  "storage (set_error r w) = storage w" "trace (set_error r w) = trace w"
  "connector (set_error r w) = connector w" "id_calls (set_error r w) = id_calls w"
  "next_obj (set_error r w) = next_obj w"
  "error (set_error r w) = (case r of Inl m \<Rightarrow> Some m | Inr b \<Rightarrow> error w)"
  by (simp_all add: set_error_def split: sum.splits)

lemma initWalletConnect_handshake_lacking:
  assumes "\<not> first_connected e \<or> (kill_session e = None \<and> \<not> second_connected e)"
    and "connect e = Inr peer"
    and "respond e (getAccounts_request p (id_calls w)) = Inr res"
    and "\<forall>account. first_element res = Inr account \<longrightarrow> lacks_field account"
    and "initWalletConnect p e w = (r, w')"
  shows "r = (case first_element res of
                Inl m \<Rightarrow> Inl m
              | Inr account \<Rightarrow> (case persist_account e of Some m \<Rightarrow> Inl m | None \<Rightarrow> Inr False)) \<and>
    walletAddress w' = walletAddress w \<and> offlineSigner w' = offlineSigner w \<and>
    getItem (storage w') KEY_CONNECTED_WALLET_TYPE =
      getItem (storage w) KEY_CONNECTED_WALLET_TYPE \<and>
    error w' = error w \<and> isLoading w' = isLoading w"
  using assms(5)
proof (cases rule: initWalletConnect_cases)
  case (construct_failed m)
  with wc_construct_result(1) [OF construct_failed(1)] assms(1) show ?thesis
    by (auto split: if_splits option.splits)
next
  case (account_failed cn w1 m)
  have q: "id_calls (emit (WcOn (fst cn)) w1) = id_calls w"
    using wc_construct_frame(6) [OF account_failed(1)] by (simp add: emit_frame)
  have c: "fst (snd cn) = False"
    using wc_construct_result(1) [OF account_failed(1)] assms(1)
    by (auto split: if_splits option.splits)
  have "Inl m = (case first_element res of
                Inl m \<Rightarrow> Inl m
              | Inr account \<Rightarrow>
                  (case persist_account e of Some m \<Rightarrow> Inl m | None \<Rightarrow> (Inr False :: string + bool)))"
    using account_failed(2) assms(2,3) q c
    by (cases cn)
      (auto simp: wc_account_def Let_def emit_frame split: sum.splits option.splits)
  then show ?thesis
    using account_failed(3) wc_construct_frame [OF account_failed(1)]
      wc_account_frame [OF account_failed(2)]
    by (simp add: emit_frame)
next
  case (finished cn w1 account w2)
  have q: "id_calls (emit (WcOn (fst cn)) w1) = id_calls w"
    using wc_construct_frame(6) [OF finished(1)] by (simp add: emit_frame)
  have c: "fst (snd cn) = False"
    using wc_construct_result(1) [OF finished(1)] assms(1)
    by (auto split: if_splits option.splits)
  have a: "first_element res = Inr account \<and> persist_account e = None"
    using finished(2) assms(2,3) q c
    by (cases cn)
      (auto simp: wc_account_def Let_def emit_frame split: sum.splits option.splits)
  with assms(4) have "lacks_field account" by simp
  from wc_finish_lacking [OF finished(3) this] a show ?thesis
    using wc_construct_frame [OF finished(1)] wc_account_frame [OF finished(2)]
    by (simp add: emit_frame)
qed

lemma initWalletConnect_caches_before_validation:
  assumes "\<not> first_connected e \<or> (kill_session e = None \<and> \<not> second_connected e)"
    and "connect e = Inr peer"
    and "respond e (getAccounts_request p (id_calls w)) = Inr res"
    and "first_element res = Inr account" and "persist_account e = None"
    and "lacks_field account"
    and "initWalletConnect p e w = (r, w')"
  shows "getItem (storage w') (account_key peer) = Some (json_stringify p account)"
  using assms
  by (auto simp: initWalletConnect_def wc_construct_def wc_account_def wc_finish_def Let_def
      emit_frame lacks_field_def getItem_setItem
      split: prod.splits sum.splits option.splits if_splits)

text \<open>
  C5, as amended. When the relayed connect pairs and the peer answers the account
  request with a value that cannot be destructured, or whose first element is falsy or
  lacks a truthy \<^verbatim>\<open>bech32Address\<close>, \<^verbatim>\<open>algo\<close> or \<^verbatim>\<open>pubKey\<close>, then
  \<^verbatim>\<open>connectWalletConnect\<close> leaves the wallet address, the signer and the recorded
  wallet type as they were and ends with the loading flag off. The error field holds
  the message of the exception the attempt raised, if it raised one: the TypeError of an
  answer that cannot be destructured, or the rejection of the storage write of line 449.
  It is unchanged otherwise: a missing field by itself is reported by no error.
\<close>

theorem handshake_rejects_account:
  assumes "\<not> first_connected e \<or> (kill_session e = None \<and> \<not> second_connected e)"
    and "connect e = Inr peer"
    and "respond e (getAccounts_request p (id_calls w)) = Inr res"
    and "\<forall>account. first_element res = Inr account \<longrightarrow> lacks_field account"
  shows "walletAddress (connectWalletConnect p e w) = walletAddress w \<and>
    offlineSigner (connectWalletConnect p e w) = offlineSigner w \<and>
    getItem (storage (connectWalletConnect p e w)) KEY_CONNECTED_WALLET_TYPE =
      getItem (storage w) KEY_CONNECTED_WALLET_TYPE \<and>
    isLoading (connectWalletConnect p e w) = False \<and>
    error (connectWalletConnect p e w) =
      (case first_element res of
         Inl m \<Rightarrow> Some m
       | Inr account \<Rightarrow> (case persist_account e of Some m \<Rightarrow> Some m | None \<Rightarrow> error w))"
proof -
  obtain r w1 where i: "initWalletConnect p e (w\<lparr>isLoading := True\<rparr>) = (r, w1)"
    by (cases "initWalletConnect p e (w\<lparr>isLoading := True\<rparr>)")
  have q: "respond e (getAccounts_request p (id_calls (w\<lparr>isLoading := True\<rparr>))) = Inr res"
    using assms(3) by simp
  from initWalletConnect_handshake_lacking [OF assms(1,2) q assms(4) i]
  show ?thesis
    by (simp add: connectWalletConnect_eq [OF i] set_error_frame
        split: sum.splits option.splits)
qed

theorem handshake_rejects_account_witness:
  "\<not> first_connected (wc_pairing missing_address) \<and>
   connect (wc_pairing missing_address) = Inr ''peer1'' \<and>
   persist_account (wc_pairing missing_address) = None \<and>
   first_element missing_address =
     Inr (JObj [(''algo'', JStr ''secp256k1''), (''pubKey'', JStr ''02ab'')]) \<and>
   lacks_field (JObj [(''algo'', JStr ''secp256k1''), (''pubKey'', JStr ''02ab'')]) \<and>
   walletAddress (connectWalletConnect demo_platform (wc_pairing missing_address) (boot [])) = None \<and>
   offlineSigner (connectWalletConnect demo_platform (wc_pairing missing_address) (boot [])) = None \<and>
   error (connectWalletConnect demo_platform (wc_pairing missing_address) (boot [])) = None"
proof -
  have h: "\<not> first_connected (wc_pairing missing_address) \<or>
      (kill_session (wc_pairing missing_address) = None \<and>
       \<not> second_connected (wc_pairing missing_address))"
    "connect (wc_pairing missing_address) = Inr ''peer1''"
    "respond (wc_pairing missing_address)
       (getAccounts_request demo_platform (id_calls (boot []))) = Inr missing_address"
    by (simp_all add: wc_pairing_def)
  have f: "first_element missing_address =
     Inr (JObj [(''algo'', JStr ''secp256k1''), (''pubKey'', JStr ''02ab'')])"
    by (simp add: missing_address_def)
  have l: "lacks_field (JObj [(''algo'', JStr ''secp256k1''), (''pubKey'', JStr ''02ab'')])"
    by (simp add: lacks_field_def)
  have a: "\<forall>account. first_element missing_address = Inr account \<longrightarrow> lacks_field account"
    using f l by simp
  have b: "walletAddress (boot []) = None" "offlineSigner (boot []) = None" "error (boot []) = None"
    by (simp_all add: boot_def)
  have n: "\<not> first_connected (wc_pairing missing_address)"
    by (simp add: wc_pairing_def)
  have pa: "persist_account (wc_pairing missing_address) = None"
    by (simp add: wc_pairing_def)
  from handshake_rejects_account [OF h a]
  show ?thesis using n h(2) f l b pa by simp
qed

text \<open>
  C5 as stated fails: for an answer whose account lacks \<^verbatim>\<open>bech32Address\<close>, with
  every storage write resolving, the attempt surfaces no error, and the account has been
  cached under the key of the peer.
\<close>

theorem handshake_silent_counterexample:
  "first_element missing_address =
     Inr (JObj [(''algo'', JStr ''secp256k1''), (''pubKey'', JStr ''02ab'')]) \<and>
   get_prop (JObj [(''algo'', JStr ''secp256k1''), (''pubKey'', JStr ''02ab'')])
     ''bech32Address'' = JUndef \<and>
   error (connectWalletConnect demo_platform (wc_pairing missing_address) (boot [])) = None \<and>
   getItem (storage (connectWalletConnect demo_platform (wc_pairing missing_address) (boot [])))
     (account_key ''peer1'') \<noteq> None"
  by (simp add: run_defs key_defs wc_pairing_def missing_address_def demo_platform_def
      demo_account_def)

subsection \<open>Restoration at startup\<close>

lemma initKepr_failed:
  assumes "initKepr ke w = (r, w1)" "r \<noteq> Inr True"
  shows "storage w1 = storage w \<and> error w1 = error w \<and> isLoading w1 = isLoading w \<and>
    (persist_keplr ke = None \<longrightarrow>
       walletAddress w1 = walletAddress w \<and> offlineSigner w1 = offlineSigner w)"
  using assms
  by (auto simp: initKepr_def Let_def emit_frame
      split: if_splits option.splits sum.splits)

lemma initKepr_session:
  assumes "initKepr ke w = (r, w1)"
  shows "(walletAddress w1 = walletAddress w \<and> offlineSigner w1 = offlineSigner w) \<or>
    (\<exists>a. truthy a \<and> walletAddress w1 = Some a \<and> offlineSigner w1 = Some InjectedSigner)"
  using assms
  by (auto simp: initKepr_def Let_def emit_frame
      split: if_splits option.splits sum.splits)

text \<open>
  The address and the signer are set before the wallet type is written (lines 395 to
  398): when that write rejects, \<^verbatim>\<open>initKepr\<close> fails with the session in place.
\<close>

lemma initKepr_write_rejected:
  assumes "keplr_defined ke" and "enable ke = None" and "get_signer ke = None"
    and "get_accounts ke = Inr accounts" and "first_element accounts = Inr first"
    and "first \<noteq> JUndef" and "first \<noteq> JNull" and "truthy (get_prop first ''address'')"
    and "persist_keplr ke = Some m"
  shows "fst (initKepr ke w) = Inl m \<and>
    walletAddress (snd (initKepr ke w)) = Some (get_prop first ''address'') \<and>
    offlineSigner (snd (initKepr ke w)) = Some InjectedSigner \<and>
    storage (snd (initKepr ke w)) = storage w"
  using assms by (simp add: initKepr_def Let_def emit_frame)

lemma initKepr_succeeded:
  assumes "initKepr ke w = (Inr True, w1)"
  shows "\<exists>a. truthy a \<and> walletAddress w1 = Some a \<and>
    offlineSigner w1 = Some InjectedSigner \<and>
    getItem (storage w1) KEY_CONNECTED_WALLET_TYPE = Some ''keplr'' \<and>
    error w1 = error w \<and> isLoading w1 = isLoading w"
  using assms
  by (auto simp: initKepr_def Let_def emit_frame getItem_setItem
      split: if_splits option.splits sum.splits)

lemma initKepr_trace:
  assumes "initKepr ke w = (r, w1)" "keplr_defined ke"
  shows "\<exists>rest. trace w1 = trace w @ KeplrEnable # rest \<and>
    filter is_transport_call rest = []"
  using assms
  by (auto simp: initKepr_def Let_def emit_def
      split: if_splits option.splits sum.splits)

lemma initWalletConnect_succeeded:
  assumes "initWalletConnect p e w = (Inr True, w')"
  shows "getItem (storage w') KEY_CONNECTED_WALLET_TYPE = Some ''likerland_app'' \<and>
    error w' = error w \<and> isLoading w' = isLoading w"
  using assms
proof (cases rule: initWalletConnect_cases)
  case (finished cn w1 account w2)
  from wc_finish_succeeded(5) [OF finished(3)] wc_construct_frame [OF finished(1)]
    wc_account_frame [OF finished(2)]
  show ?thesis by (auto simp: getItem_setItem emit_frame)
qed simp_all

lemma setupAccount_eq:
  assumes "keplr_defined ke"
    and "restore p ke e (getItem (storage w) KEY_CONNECTED_WALLET_TYPE)
           ((emit (StorageGet KEY_CONNECTED_WALLET_TYPE) w)\<lparr>isLoading := True\<rparr>) = (r, w2)"
  shows "setupAccount p ke e w = (set_error r w2)\<lparr>isLoading := False\<rparr>"
  using assms by (simp add: setupAccount_def)

lemma restore_failed:
  assumes "restore p ke e t w = (r, w')" "r \<noteq> Inr True"
  shows "getItem (storage w') KEY_CONNECTED_WALLET_TYPE =
      getItem (storage w) KEY_CONNECTED_WALLET_TYPE \<and>
    error w' = error w \<and>
    (persist_keplr ke = None \<and> persist_relayed e = None \<longrightarrow>
       walletAddress w' = walletAddress w \<and> offlineSigner w' = offlineSigner w)"
  using assms initWalletConnect_failed [of p e w r w'] initKepr_failed [of ke w r w']
  by (auto simp: restore_def split: if_splits)

lemma restore_succeeded:
  assumes "restore p ke e t w = (Inr True, w')"
  shows "(t = Some ''likerland_app'' \<or> t = Some ''keplr'') \<and>
    getItem (storage w') KEY_CONNECTED_WALLET_TYPE = t \<and>
    walletAddress w' \<noteq> None \<and> offlineSigner w' \<noteq> None \<and> error w' = error w"
  using assms initWalletConnect_succeeded [of p e w w'] initWalletConnect_signer [of p e w w']
    initKepr_succeeded [of ke w w']
  by (auto simp: restore_def split: if_splits)

lemma restore_trace:
  assumes "restore p ke e t w = (r, w')" "keplr_defined ke"
  shows "\<exists>rest. trace w' = trace w @ rest \<and>
    (t = Some ''likerland_app'' \<longrightarrow>
       (\<exists>rest'. rest = WcNew (next_obj w) # rest') \<and>
       filter is_keplr_call rest = []) \<and>
    (t = Some ''keplr'' \<longrightarrow>
       (\<exists>rest'. rest = KeplrEnable # rest') \<and>
       filter is_transport_call rest = []) \<and>
    (t \<noteq> Some ''likerland_app'' \<and> t \<noteq> Some ''keplr'' \<longrightarrow> rest = [])"
proof (cases "t = Some ''likerland_app''")
  case True
  with assms have i: "initWalletConnect p e w = (r, w')" by (simp add: restore_def)
  show ?thesis
    using initWalletConnect_trace [OF i] True
    by (auto split: if_splits option.splits sum.splits)
next
  case False
  show ?thesis
  proof (cases "t = Some ''keplr''")
    case True
    with assms False have i: "initKepr ke w = (r, w')" by (simp add: restore_def)
    from initKepr_trace [OF i assms(2)] True show ?thesis by auto
  next
    case k: False
    with assms False show ?thesis by (simp add: restore_def)
  qed
qed

text \<open>
  C3, as amended. When \<^verbatim>\<open>window.keplr\<close> is defined, \<^verbatim>\<open>setupAccount\<close> first reads
  the persisted wallet type and then runs the restoration of the backend it names and of
  no other: the calls that follow start with the construction of a connector for
  \<^verbatim>\<open>likerland_app\<close> and with \<^verbatim>\<open>enable\<close> for \<^verbatim>\<open>keplr\<close>, and there is no call at
  all for any other value. The routine ends with the loading flag off and does not
  throw. If the restoration does not return \<^verbatim>\<open>true\<close>, the recorded type is as
  before, the message of an exception is put into the error field, and a returned
  \<^verbatim>\<open>false\<close> leaves that field unchanged; the wallet address and the signer are then
  as before (absent, in a process that has just started) whenever the write of the wallet
  type does not reject. What a rejected write of the wallet type leaves behind is not
  part of the statement. If the restoration returns \<^verbatim>\<open>true\<close>, address and signer are
  present.
\<close>

theorem setupAccount_restores_with_keplr:
  assumes "keplr_defined ke"
    and "restore p ke e (getItem (storage w) KEY_CONNECTED_WALLET_TYPE)
           ((emit (StorageGet KEY_CONNECTED_WALLET_TYPE) w)\<lparr>isLoading := True\<rparr>) = (r, w2)"
  shows "(\<exists>rest. new_events w (setupAccount p ke e w) = StorageGet KEY_CONNECTED_WALLET_TYPE # rest \<and>
      (getItem (storage w) KEY_CONNECTED_WALLET_TYPE = Some ''likerland_app'' \<longrightarrow>
         (\<exists>rest'. rest = WcNew (next_obj w) # rest') \<and>
         filter is_keplr_call rest = []) \<and>
      (getItem (storage w) KEY_CONNECTED_WALLET_TYPE = Some ''keplr'' \<longrightarrow>
         (\<exists>rest'. rest = KeplrEnable # rest') \<and>
         filter is_transport_call rest = []) \<and>
      (getItem (storage w) KEY_CONNECTED_WALLET_TYPE \<noteq> Some ''likerland_app'' \<and>
       getItem (storage w) KEY_CONNECTED_WALLET_TYPE \<noteq> Some ''keplr'' \<longrightarrow> rest = [])) \<and>
    isLoading (setupAccount p ke e w) = False \<and>
    (r \<noteq> Inr True \<longrightarrow>
       getItem (storage (setupAccount p ke e w)) KEY_CONNECTED_WALLET_TYPE =
         getItem (storage w) KEY_CONNECTED_WALLET_TYPE \<and>
       error (setupAccount p ke e w) = (case r of Inl m \<Rightarrow> Some m | Inr b \<Rightarrow> error w)) \<and>
    (r \<noteq> Inr True \<and> persist_keplr ke = None \<and> persist_relayed e = None \<longrightarrow>
       walletAddress (setupAccount p ke e w) = walletAddress w \<and>
       offlineSigner (setupAccount p ke e w) = offlineSigner w) \<and>
    (r = Inr True \<longrightarrow>
       walletAddress (setupAccount p ke e w) \<noteq> None \<and>
       offlineSigner (setupAccount p ke e w) \<noteq> None \<and>
       getItem (storage (setupAccount p ke e w)) KEY_CONNECTED_WALLET_TYPE =
         getItem (storage w) KEY_CONNECTED_WALLET_TYPE \<and>
       error (setupAccount p ke e w) = error w)"
proof -
  let ?w1 = "(emit (StorageGet KEY_CONNECTED_WALLET_TYPE) w)\<lparr>isLoading := True\<rparr>"
  note eq = setupAccount_eq [OF assms]
  have w1: "trace ?w1 = trace w @ [StorageGet KEY_CONNECTED_WALLET_TYPE]"
    "next_obj ?w1 = next_obj w" "walletAddress ?w1 = walletAddress w"
    "offlineSigner ?w1 = offlineSigner w" "storage ?w1 = storage w" "error ?w1 = error w"
    by (simp_all add: emit_def)
  from restore_trace [OF assms(2,1)] obtain rest where
    rest: "trace w2 = trace ?w1 @ rest"
      "getItem (storage w) KEY_CONNECTED_WALLET_TYPE = Some ''likerland_app'' \<longrightarrow>
         (\<exists>rest'. rest = WcNew (next_obj w) # rest') \<and>
         filter is_keplr_call rest = []"
      "getItem (storage w) KEY_CONNECTED_WALLET_TYPE = Some ''keplr'' \<longrightarrow>
         (\<exists>rest'. rest = KeplrEnable # rest') \<and>
         filter is_transport_call rest = []"
      "getItem (storage w) KEY_CONNECTED_WALLET_TYPE \<noteq> Some ''likerland_app'' \<and>
       getItem (storage w) KEY_CONNECTED_WALLET_TYPE \<noteq> Some ''keplr'' \<longrightarrow> rest = []"
    unfolding w1(2) by blast
  have t: "new_events w (setupAccount p ke e w) = StorageGet KEY_CONNECTED_WALLET_TYPE # rest"
    using rest(1) w1(1) by (simp add: eq new_events_def set_error_frame)
  have l: "isLoading (setupAccount p ke e w) = False"
    by (simp add: eq)
  have f: "r \<noteq> Inr True \<longrightarrow>
       getItem (storage (setupAccount p ke e w)) KEY_CONNECTED_WALLET_TYPE =
         getItem (storage w) KEY_CONNECTED_WALLET_TYPE \<and>
       error (setupAccount p ke e w) = (case r of Inl m \<Rightarrow> Some m | Inr b \<Rightarrow> error w)"
    using restore_failed [OF assms(2)] w1
    by (auto simp: eq set_error_frame split: sum.splits)
  have g: "r \<noteq> Inr True \<and> persist_keplr ke = None \<and> persist_relayed e = None \<longrightarrow>
       walletAddress (setupAccount p ke e w) = walletAddress w \<and>
       offlineSigner (setupAccount p ke e w) = offlineSigner w"
    using restore_failed [OF assms(2)] w1
    by (auto simp: eq set_error_frame)
  have s: "r = Inr True \<longrightarrow>
       walletAddress (setupAccount p ke e w) \<noteq> None \<and>
       offlineSigner (setupAccount p ke e w) \<noteq> None \<and>
       getItem (storage (setupAccount p ke e w)) KEY_CONNECTED_WALLET_TYPE =
         getItem (storage w) KEY_CONNECTED_WALLET_TYPE \<and>
       error (setupAccount p ke e w) = error w"
    using restore_succeeded [of p ke e _ ?w1 w2] assms(2) w1
    by (auto simp: eq set_error_frame)
  from t rest(2,3,4) l f g s show ?thesis by blast
qed

theorem setupAccount_restores_with_keplr_witness:
  "keplr_defined keplr_rejects \<and>
   getItem keplr_store KEY_CONNECTED_WALLET_TYPE = Some ''keplr'' \<and>
   new_events (boot keplr_store)
     (setupAccount demo_platform keplr_rejects wc_live (boot keplr_store)) =
     [StorageGet KEY_CONNECTED_WALLET_TYPE, KeplrEnable] \<and>
   walletAddress (setupAccount demo_platform keplr_rejects wc_live (boot keplr_store)) = None \<and>
   offlineSigner (setupAccount demo_platform keplr_rejects wc_live (boot keplr_store)) = None \<and>
   isLoading (setupAccount demo_platform keplr_rejects wc_live (boot keplr_store)) = False \<and>
   error (setupAccount demo_platform keplr_rejects wc_live (boot keplr_store)) =
     Some ''Request rejected''"
proof -
  have h: "keplr_defined keplr_rejects"
    by (simp add: keplr_rejects_def)
  have s: "getItem keplr_store KEY_CONNECTED_WALLET_TYPE = Some ''keplr''"
    by (simp add: keplr_store_def getItem_def)
  have r: "restore demo_platform keplr_rejects wc_live
       (getItem (storage (boot keplr_store)) KEY_CONNECTED_WALLET_TYPE)
       ((emit (StorageGet KEY_CONNECTED_WALLET_TYPE) (boot keplr_store))\<lparr>isLoading := True\<rparr>) =
     (Inl ''Request rejected'',
      (emit KeplrEnable (emit (StorageGet KEY_CONNECTED_WALLET_TYPE) (boot keplr_store)))
        \<lparr>isLoading := True\<rparr>)"
    by (simp add: restore_def initKepr_def keplr_rejects_def keplr_store_def getItem_def
        boot_def emit_def Let_def)
  have t: "new_events (boot keplr_store)
     (setupAccount demo_platform keplr_rejects wc_live (boot keplr_store)) =
     [StorageGet KEY_CONNECTED_WALLET_TYPE, KeplrEnable]"
    unfolding setupAccount_eq [OF h r]
    by (simp add: set_error_def new_events_def emit_def boot_def)
  have b: "walletAddress (boot keplr_store) = None" "offlineSigner (boot keplr_store) = None"
    by (simp_all add: boot_def)
  have n: "persist_keplr keplr_rejects = None" "persist_relayed wc_live = None"
    by (simp_all add: keplr_rejects_def wc_live_def)
  from setupAccount_restores_with_keplr [OF h r]
  show ?thesis using h s t b n by simp
qed

text \<open>
  C3 as stated fails twice. With \<^verbatim>\<open>window.keplr\<close> undefined and the type \<^verbatim>\<open>keplr\<close>
  recorded, the startup makes no call at all: the type is not read and nothing is
  restored. With \<^verbatim>\<open>window.keplr\<close> defined and \<^verbatim>\<open>enable\<close> rejecting, the message of
  the rejection is put into the error field of the context.
\<close>

theorem startup_restoration_counterexample:
  "getItem keplr_store KEY_CONNECTED_WALLET_TYPE = Some ''keplr'' \<and>
   trace (setupAccount demo_platform no_keplr wc_live (boot keplr_store)) = [] \<and>
   error (setupAccount demo_platform keplr_rejects wc_live (boot keplr_store)) =
     Some ''Request rejected''"
  by (simp add: run_defs key_defs keplr_store_def no_keplr_def keplr_rejects_def)

subsection \<open>Two consecutive starts\<close>

text \<open>
  What a start does once the restoring branch is reached with a cached account: it ends
  connected with the cached address, and asks for no pairing. The first connector
  object has been killed by then.
\<close>

lemma setupAccount_live_session:
  assumes "keplr_defined ke"
    and "first_connected e" and "kill_session e = None" and "second_connected e"
    and "getItem st KEY_CONNECTED_WALLET_TYPE = Some ''likerland_app''"
    and "getItem st (account_key (second_peerId e)) = Some ser" and "ser \<noteq> []"
    and "json_parse p ser = Inr account" and "\<not> lacks_field account"
    and "buffer_from_hex p (get_prop account ''pubKey'') = Inr bytes"
    and "persist_relayed e = None"
  shows "walletAddress (setupAccount p ke e (boot st)) = Some (get_prop account ''bech32Address'')"
    and "offlineSigner (setupAccount p ke e (boot st)) =
       Some (RelayedSigner \<lparr>address = get_prop account ''bech32Address'', pubkey = bytes,
         algo = get_prop account ''algo''\<rparr> 1)"
    and "trace (setupAccount p ke e (boot st)) =
       [StorageGet KEY_CONNECTED_WALLET_TYPE, WcNew 0, WcKill 0, WcNew 1, WcOn 1,
        StorageGet (account_key (second_peerId e)), StorageGet KEY_WALLET_CONNECT]"
    and "error (setupAccount p ke e (boot st)) = None"
    and "getItem (storage (setupAccount p ke e (boot st))) k = getItem st k"
proof -
  obtain x xs where ser: "ser = x # xs" using assms(7) by (cases ser) auto
  have eq: "setupAccount p ke e (boot st) =
    \<lparr>walletAddress = Some (get_prop account ''bech32Address''),
     offlineSigner = Some (RelayedSigner \<lparr>address = get_prop account ''bech32Address'',
       pubkey = bytes, algo = get_prop account ''algo''\<rparr> 1),
     connector = Some 0, isLoading = False, error = None,
     storage = setItem KEY_CONNECTED_WALLET_TYPE ''likerland_app'' st,
     next_obj = 2, id_calls = 0,
     trace = [StorageGet KEY_CONNECTED_WALLET_TYPE, WcNew 0, WcKill 0, WcNew 1, WcOn 1,
        StorageGet (account_key (second_peerId e)), StorageGet KEY_WALLET_CONNECT]\<rparr>"
    using assms(1-6,8-11) unfolding ser
    by (simp add: setupAccount_def restore_def initWalletConnect_def wc_construct_def
        wc_account_def wc_finish_def set_error_def emit_def boot_def Let_def lacks_field_def)
  show "walletAddress (setupAccount p ke e (boot st)) = Some (get_prop account ''bech32Address'')"
    by (simp add: eq)
  show "offlineSigner (setupAccount p ke e (boot st)) =
       Some (RelayedSigner \<lparr>address = get_prop account ''bech32Address'', pubkey = bytes,
         algo = get_prop account ''algo''\<rparr> 1)"
    by (simp add: eq)
  show "trace (setupAccount p ke e (boot st)) =
       [StorageGet KEY_CONNECTED_WALLET_TYPE, WcNew 0, WcKill 0, WcNew 1, WcOn 1,
        StorageGet (account_key (second_peerId e)), StorageGet KEY_WALLET_CONNECT]"
    by (simp add: eq)
  show "error (setupAccount p ke e (boot st)) = None"
    by (simp add: eq)
  show "getItem (storage (setupAccount p ke e (boot st))) k = getItem st k"
    using assms(5) by (simp add: eq getItem_setItem)
qed

text \<open>
  If the object built after the kill no longer reports the session, the same start asks
  for a new pairing.
\<close>

lemma restoration_pairs_when_second_object_is_not_connected:
  assumes "keplr_defined ke" and "first_connected e" and "kill_session e = None"
    and "\<not> second_connected e"
    and "getItem st KEY_CONNECTED_WALLET_TYPE = Some ''likerland_app''"
  shows "filter is_pairing (trace (setupAccount p ke e (boot st))) = [WcConnect 1]"
proof -
  obtain r w2 where i: "initWalletConnect p e
      ((emit (StorageGet KEY_CONNECTED_WALLET_TYPE) (boot st))\<lparr>isLoading := True\<rparr>) = (r, w2)"
    by (cases "initWalletConnect p e
      ((emit (StorageGet KEY_CONNECTED_WALLET_TYPE) (boot st))\<lparr>isLoading := True\<rparr>)")
  have "setupAccount p ke e (boot st) = (set_error r w2)\<lparr>isLoading := False\<rparr>"
    using assms(1,5) i by (simp add: setupAccount_def restore_def boot_def emit_def)
  then show ?thesis
    using initWalletConnect_trace [OF i] assms(2,3,4)
    by (simp add: set_error_frame emit_def boot_def split: sum.splits)
qed

text \<open>
  A start at which \<^verbatim>\<open>window.keplr\<close> is undefined restores nothing, whatever the store
  and the transport.
\<close>

lemma restore_without_keplr_example:
  "getItem relayed_store KEY_CONNECTED_WALLET_TYPE = Some ''likerland_app'' \<and>
   getItem relayed_store (account_key ''peer1'') = Some demo_account_json \<and>
   \<not> is_connected (setupAccount demo_platform no_keplr wc_live (boot relayed_store)) \<and>
   getSigner (setupAccount demo_platform no_keplr wc_live (boot relayed_store)) = None"
  by (simp add: run_defs key_defs relayed_store_def no_keplr_def is_connected_def getSigner_def)

text \<open>
  C8. The claim does not hold of the code at this input: the store holds a valid relayed
  session (the wallet type \<^verbatim>\<open>likerland_app\<close> and, under the key of \<open>peer1\<close>, an
  account with all its fields), \<^verbatim>\<open>window.keplr\<close> is defined, the first connector object
  reports the session with \<open>peer1\<close> live, \<^verbatim>\<open>killSession\<close> resolves and the object built
  after it reports no session. Each of two consecutive starts kills the object that
  reports the live session and then calls \<^verbatim>\<open>connect\<close>: a new pairing is asked for, and
  the cached account of \<open>peer1\<close> is never read.
\<close>

theorem restart_kills_session_and_pairs:
  "keplr_defined keplr_ok \<and>
   getItem relayed_store KEY_CONNECTED_WALLET_TYPE = Some ''likerland_app'' \<and>
   getItem relayed_store (account_key ''peer1'') = Some demo_account_json \<and>
   json_parse demo_platform demo_account_json = Inr demo_account \<and>
   truthy (get_prop demo_account ''bech32Address'') \<and>
   truthy (get_prop demo_account ''algo'') \<and> truthy (get_prop demo_account ''pubKey'') \<and>
   first_connected wc_stale \<and> first_peerId wc_stale = ''peer1'' \<and>
   kill_session wc_stale = None \<and> \<not> second_connected wc_stale \<and>
   trace (setupAccount demo_platform keplr_ok wc_stale (boot relayed_store)) =
     [StorageGet KEY_CONNECTED_WALLET_TYPE, WcNew 0, WcKill 0, WcNew 1, WcOn 1, WcConnect 1,
      WcRequest 1 (getAccounts_request demo_platform 0)] \<and>
   filter is_pairing
     (trace (setupAccount demo_platform keplr_ok wc_stale (boot relayed_store))) =
     [WcConnect 1] \<and>
   filter is_pairing
     (trace (setupAccount demo_platform keplr_ok wc_stale
       (boot (storage (setupAccount demo_platform keplr_ok wc_stale (boot relayed_store)))))) =
     [WcConnect 1]"
  by (simp add: run_defs key_defs relayed_store_def keplr_ok_def wc_stale_def
      demo_platform_def demo_account_def demo_account_json_def lacks_field_def)

subsection \<open>The session invariant\<close>

lemma session_inv_cong:
  "walletAddress w' = walletAddress w \<Longrightarrow> offlineSigner w' = offlineSigner w \<Longrightarrow>
     session_inv w' = session_inv w"
  by (simp add: session_inv_def split: option.splits signer.splits)

lemma session_inv_update:
  "session_inv (w\<lparr>isLoading := b\<rparr>) = session_inv w"
  "session_inv (w\<lparr>error := x\<rparr>) = session_inv w"
  "session_inv (emit ev w) = session_inv w"
  by (rule session_inv_cong; simp add: emit_def)+

lemma session_inv_boot: "session_inv (boot st)"
  by (simp add: session_inv_def boot_def)

lemma session_inv_disconnect: "session_inv (disconnect b w)"
  by (simp add: session_inv_def disconnect_def Let_def split: option.splits)

lemma session_inv_initKepr:
  assumes "initKepr ke w = (r, w')" "session_inv w"
  shows "session_inv w'"
proof -
  from initKepr_session [OF assms(1)] consider
    (same) "walletAddress w' = walletAddress w" "offlineSigner w' = offlineSigner w"
    | (set) a where "truthy a" "walletAddress w' = Some a"
        "offlineSigner w' = Some InjectedSigner"
    by blast
  then show ?thesis
  proof cases
    case same
    with assms(2) session_inv_cong [of w' w] show ?thesis by simp
  next
    case set
    then show ?thesis by (simp add: session_inv_def)
  qed
qed

lemma session_inv_initWalletConnect:
  assumes "initWalletConnect p e w = (r, w')" "session_inv w"
  shows "session_inv w'"
proof -
  from initWalletConnect_session [OF assms(1)] consider
    (same) "walletAddress w' = walletAddress w" "offlineSigner w' = offlineSigner w"
    | (set) a c where "truthy (address a)" "walletAddress w' = Some (address a)"
        "offlineSigner w' = Some (RelayedSigner a c)"
    by blast
  then show ?thesis
  proof cases
    case same
    with assms(2) session_inv_cong [of w' w] show ?thesis by simp
  next
    case set
    then show ?thesis by (simp add: session_inv_def)
  qed
qed

lemma session_inv_set_error: "session_inv (set_error r w) = session_inv w"
  by (rule session_inv_cong) (simp_all add: set_error_frame)

lemma session_inv_suggestChain: "session_inv (suggestChain ke w) = session_inv w"
  by (rule session_inv_cong)
    (simp_all add: suggestChain_def Let_def emit_def split: option.splits)

lemma session_inv_setupAccount:
  assumes "session_inv w"
  shows "session_inv (setupAccount p ke e w)"
proof (cases "keplr_defined ke")
  case False
  with assms show ?thesis by (simp add: setupAccount_def)
next
  case True
  let ?w1 = "(emit (StorageGet KEY_CONNECTED_WALLET_TYPE) w)\<lparr>isLoading := True\<rparr>"
  obtain r w2 where r: "restore p ke e (getItem (storage w) KEY_CONNECTED_WALLET_TYPE) ?w1 = (r, w2)"
    by (cases "restore p ke e (getItem (storage w) KEY_CONNECTED_WALLET_TYPE) ?w1")
  have "session_inv ?w1"
    using assms by (simp add: session_inv_update)
  with r have "session_inv w2"
    using session_inv_initWalletConnect [of p e ?w1 r w2] session_inv_initKepr [of ke ?w1 r w2]
    by (auto simp: restore_def split: if_splits)
  then show ?thesis
    unfolding setupAccount_eq [OF True r]
    by (simp add: session_inv_update session_inv_set_error)
qed

lemma session_inv_connectKeplr:
  assumes "session_inv w"
  shows "session_inv (connectKeplr ke w)"
proof (cases "keplr_defined ke")
  case False
  with assms show ?thesis by (simp add: connectKeplr_def session_inv_update)
next
  case True
  let ?w1 = "suggestChain ke (w\<lparr>isLoading := True\<rparr>)"
  obtain r w2 where r: "initKepr ke ?w1 = (r, w2)"
    by (cases "initKepr ke ?w1")
  have "session_inv (w\<lparr>isLoading := True\<rparr>)"
    using assms by (simp add: session_inv_update)
  then have "session_inv ?w1"
    by (simp add: session_inv_suggestChain)
  from session_inv_initKepr [OF r this] show ?thesis
    using True r by (simp add: connectKeplr_def session_inv_update session_inv_set_error)
qed

lemma session_inv_connectWalletConnect:
  assumes "session_inv w"
  shows "session_inv (connectWalletConnect p e w)"
proof -
  obtain r w1 where r: "initWalletConnect p e (w\<lparr>isLoading := True\<rparr>) = (r, w1)"
    by (cases "initWalletConnect p e (w\<lparr>isLoading := True\<rparr>)")
  have "session_inv (w\<lparr>isLoading := True\<rparr>)"
    using assms by (simp add: session_inv_update)
  from session_inv_initWalletConnect [OF r this] show ?thesis
    unfolding connectWalletConnect_eq [OF r]
    by (simp add: session_inv_update session_inv_set_error)
qed

lemma session_inv_keystoreChangeHandler:
  assumes "session_inv w"
  shows "session_inv (keystoreChangeHandler ke w)"
proof -
  let ?w1 = "emit (StorageGet KEY_CONNECTED_WALLET_TYPE) w"
  have w1: "session_inv ?w1"
    using assms by (simp add: session_inv_update)
  obtain r w2 where r: "initKepr ke ?w1 = (r, w2)"
    by (cases "initKepr ke ?w1")
  from session_inv_initKepr [OF r w1] w1 r show ?thesis
    by (simp add: keystoreChangeHandler_def Let_def)
qed

lemma signDirect_frame:
  "walletAddress (snd (signDirect p toJSON fromJSON answer c a d w)) = walletAddress w"
  "offlineSigner (snd (signDirect p toJSON fromJSON answer c a d w)) = offlineSigner w"
  "storage (snd (signDirect p toJSON fromJSON answer c a d w)) = storage w"
  "id_calls (snd (signDirect p toJSON fromJSON answer c a d w)) = Suc (id_calls w)"
  "trace (snd (signDirect p toJSON fromJSON answer c a d w)) =
     trace w @ [WcRequest c (signDirect_request p (id_calls w) a (toJSON d))]"
  by (simp_all add: signDirect_def Let_def emit_def split: sum.splits)

lemma session_inv_signDirect:
  "session_inv (snd (signDirect p toJSON fromJSON answer c a d w)) = session_inv w"
  by (rule session_inv_cong) (simp_all add: signDirect_frame)

lemma reachable_session_inv: "reachable p w \<Longrightarrow> session_inv w"
  by (induction rule: reachable.induct)
    (simp_all add: session_inv_boot session_inv_setupAccount session_inv_connectKeplr
      session_inv_connectWalletConnect session_inv_disconnect session_inv_keystoreChangeHandler
      session_inv_signDirect)

text \<open>
  What holds of the session slots in every state reached by any sequence of startup
  restorations, injected connects, relayed connects, disconnects, keystore changes and
  relayed signings, whatever the outside answers and whichever write rejects: the wallet
  address is present if and only if the signer is; a present address is a truthy value,
  so never the empty string; and the address of a relayed session is the
  \<^verbatim>\<open>bech32Address\<close> of the account of its signer. Nothing makes the address a string.
\<close>

lemma reachable_session_slots:
  assumes "reachable p w"
  shows "(is_connected w \<longleftrightarrow> getSigner w \<noteq> None) \<and>
    (walletAddress w = None \<longleftrightarrow> offlineSigner w = None) \<and>
    (\<forall>a. walletAddress w = Some a \<longrightarrow> truthy a \<and> a \<noteq> JStr []) \<and>
    (\<forall>a c. offlineSigner w = Some (RelayedSigner a c) \<longrightarrow>
       walletAddress w = Some (address a) \<and> truthy (address a))"
proof -
  have i: "session_inv w" using assms by (rule reachable_session_inv)
  show ?thesis
  proof (cases "offlineSigner w")
    case None
    with i show ?thesis
      by (simp add: session_inv_def is_connected_def getSigner_def)
  next
    case (Some sg)
    show ?thesis
    proof (cases sg)
      case InjectedSigner
      with i Some obtain a where a: "walletAddress w = Some a" "truthy a"
        by (auto simp: session_inv_def split: option.splits)
      from a(2) have "a \<noteq> JStr []" by auto
      with a Some InjectedSigner show ?thesis
        by (simp add: is_connected_def getSigner_def)
    next
      case (RelayedSigner acct c)
      with i Some have r: "walletAddress w = Some (address acct)" "truthy (address acct)"
        by (simp_all add: session_inv_def)
      from r(2) have "address acct \<noteq> JStr []" by auto
      with r Some RelayedSigner show ?thesis
        by (simp add: is_connected_def getSigner_def)
    qed
  qed
qed

text \<open>
  C2. The claim does not hold of the code at this input: a process starts on an empty
  store and connects through the relay; the peer pairs and answers the account request
  with one account whose \<^verbatim>\<open>bech32Address\<close> is the number 1, the other two fields being
  strings. The address is tested with \<^verbatim>\<open>!address\<close> only (line 473), so the attempt
  succeeds: the state is reachable, its relayed session is active, and its wallet
  address is the number 1, not a string.
\<close>

theorem numeric_address_becomes_session:
  "reachable demo_platform
     (connectWalletConnect demo_platform (wc_pairing numeric_address) (boot [])) \<and>
   first_element numeric_address =
     Inr (JObj [(''bech32Address'', JNum 1), (''algo'', JStr ''secp256k1''),
       (''pubKey'', JStr ''02ab'')]) \<and>
   relayed_active (connectWalletConnect demo_platform (wc_pairing numeric_address) (boot [])) \<and>
   is_connected (connectWalletConnect demo_platform (wc_pairing numeric_address) (boot [])) \<and>
   error (connectWalletConnect demo_platform (wc_pairing numeric_address) (boot [])) = None \<and>
   walletAddress (connectWalletConnect demo_platform (wc_pairing numeric_address) (boot [])) =
     Some (JNum 1)"
proof -
  have r: "reachable demo_platform
      (connectWalletConnect demo_platform (wc_pairing numeric_address) (boot []))"
    by (intro reachable.relayed reachable.started)
  have v: "walletAddress (connectWalletConnect demo_platform (wc_pairing numeric_address) (boot [])) =
     Some (JNum 1)"
    "relayed_active (connectWalletConnect demo_platform (wc_pairing numeric_address) (boot []))"
    "error (connectWalletConnect demo_platform (wc_pairing numeric_address) (boot [])) = None"
    "first_element numeric_address =
     Inr (JObj [(''bech32Address'', JNum 1), (''algo'', JStr ''secp256k1''),
       (''pubKey'', JStr ''02ab'')])"
    by (simp_all add: run_defs key_defs wc_pairing_def numeric_address_def demo_platform_def)
  from r v show ?thesis by (simp add: is_connected_def)
qed

text \<open>
  The address of Keplr is tested in the same way (line 393): a signer whose first
  account has the number 1 as address gives an injected session with that address.
\<close>

lemma numeric_keplr_address_example:
  "walletAddress (connectKeplr
     (keplr_ok\<lparr>get_accounts := Inr (JArr [JObj [(''address'', JNum 1)]])\<rparr>) (boot [])) =
     Some (JNum 1)"
  by (simp add: run_defs keplr_ok_def)

subsection \<open>Request ids\<close>

lemma request_ids_append: "request_ids (xs @ ys) = request_ids xs @ request_ids ys"
  by (induction xs rule: request_ids.induct) simp_all

lemma ids_inv_step:
  assumes "ids_inv p w"
    and "trace w' = trace w @ evs"
    and "request_ids evs = map (payload_id p) [id_calls w..<id_calls w']"
    and "id_calls w \<le> id_calls w'"
  shows "ids_inv p w'"
proof -
  have "[0..<id_calls w'] = [0..<id_calls w] @ [id_calls w..<id_calls w']"
    using assms(4) by (metis le0 upt_add_eq_append le_Suc_ex)
  with assms show ?thesis
    by (simp add: ids_inv_def request_ids_append)
qed

lemma ids_inv_boot: "ids_inv p (boot st)"
  by (simp add: ids_inv_def boot_def)

lemma ids_inv_cong:
  "trace w' = trace w \<Longrightarrow> id_calls w' = id_calls w \<Longrightarrow> ids_inv p w' = ids_inv p w"
  by (simp add: ids_inv_def)

lemma ids_inv_signDirect:
  assumes "ids_inv p w"
  shows "ids_inv p (snd (signDirect p toJSON fromJSON answer c a d w))"
  by (rule ids_inv_step [OF assms signDirect_frame(5)])
    (simp_all add: signDirect_frame signDirect_request_def)

lemma initKepr_ids:
  assumes "initKepr ke w = (r, w')"
  shows "id_calls w' = id_calls w" "\<exists>evs. trace w' = trace w @ evs \<and> request_ids evs = []"
  using assms
  by (auto simp: initKepr_def Let_def emit_def
      split: if_splits option.splits sum.splits list.splits)

lemma ids_inv_initKepr:
  assumes "initKepr ke w = (r, w')" "ids_inv p w"
  shows "ids_inv p w'"
proof -
  from initKepr_ids [OF assms(1)] obtain evs where
    "id_calls w' = id_calls w" "trace w' = trace w @ evs" "request_ids evs = []"
    by blast
  with assms(2) show ?thesis
    by (simp add: ids_inv_def request_ids_append)
qed

lemma initWalletConnect_id_calls:
  assumes "initWalletConnect p e w = (r, w')"
  shows "id_calls w' =
    (if (first_connected e \<longrightarrow> kill_session e = None \<and> \<not> second_connected e) \<and>
        (\<exists>peer. connect e = Inr peer)
     then Suc (id_calls w) else id_calls w)"
  using assms
proof (cases rule: initWalletConnect_cases)
  case (construct_failed m)
  from wc_construct_result(1) [OF construct_failed(1)] wc_construct_frame(6) [OF construct_failed(1)]
  show ?thesis by (auto split: if_splits option.splits)
next
  case (account_failed cn w1 m)
  from wc_construct_result(1) [OF account_failed(1)] wc_construct_frame(6) [OF account_failed(1)]
    account_failed(2)
  show ?thesis
    by (auto simp: wc_account_def Let_def emit_frame emit_def
        split: if_splits option.splits sum.splits list.splits)
next
  case (finished cn w1 account w2)
  from wc_construct_result(1) [OF finished(1)] wc_construct_frame(6) [OF finished(1)]
    finished(2) wc_finish_frame(5) [OF finished(3)]
  show ?thesis
    by (auto simp: wc_account_def Let_def emit_frame emit_def
        split: if_splits option.splits sum.splits list.splits)
qed

lemma ids_inv_initWalletConnect:
  assumes "initWalletConnect p e w = (r, w')" "ids_inv p w"
  shows "ids_inv p w'"
  using initWalletConnect_trace [OF assms(1)] initWalletConnect_id_calls [OF assms(1)] assms(2)
  by (auto simp: ids_inv_def request_ids_append getAccounts_request_def
      split: if_splits option.splits sum.splits)

lemma ids_inv_update:
  "ids_inv p (w\<lparr>isLoading := b\<rparr>) = ids_inv p w"
  "ids_inv p (w\<lparr>error := x\<rparr>) = ids_inv p w"
  "ids_inv p (set_error r w) = ids_inv p w"
  by (simp_all add: ids_inv_def set_error_frame)

lemma ids_inv_emit:
  "request_ids [ev] = [] \<Longrightarrow> ids_inv p (emit ev w) = ids_inv p w"
  by (simp add: ids_inv_def emit_def request_ids_append)

lemma ids_inv_disconnect: "ids_inv p w \<Longrightarrow> ids_inv p (disconnect b w)"
  by (simp add: ids_inv_def disconnect_def Let_def emit_def request_ids_append
      split: option.splits)

lemma ids_inv_suggestChain: "ids_inv p (suggestChain ke w) = ids_inv p w"
  by (simp add: ids_inv_def suggestChain_def Let_def emit_def request_ids_append
      split: option.splits)

lemma ids_inv_setupAccount:
  assumes "ids_inv p w"
  shows "ids_inv p (setupAccount p ke e w)"
proof (cases "keplr_defined ke")
  case False
  with assms show ?thesis by (simp add: setupAccount_def)
next
  case True
  let ?w1 = "(emit (StorageGet KEY_CONNECTED_WALLET_TYPE) w)\<lparr>isLoading := True\<rparr>"
  obtain r w2 where r: "restore p ke e (getItem (storage w) KEY_CONNECTED_WALLET_TYPE) ?w1 = (r, w2)"
    by (cases "restore p ke e (getItem (storage w) KEY_CONNECTED_WALLET_TYPE) ?w1")
  have "ids_inv p ?w1"
    using assms by (simp add: ids_inv_update ids_inv_emit)
  with r have "ids_inv p w2"
    using ids_inv_initWalletConnect [of p e ?w1 r w2] ids_inv_initKepr [of ke ?w1 r w2 p]
    by (auto simp: restore_def split: if_splits)
  then show ?thesis
    unfolding setupAccount_eq [OF True r]
    by (simp add: ids_inv_update)
qed

lemma ids_inv_connectKeplr:
  assumes "ids_inv p w"
  shows "ids_inv p (connectKeplr ke w)"
proof (cases "keplr_defined ke")
  case False
  with assms show ?thesis by (simp add: connectKeplr_def ids_inv_update)
next
  case True
  let ?w1 = "suggestChain ke (w\<lparr>isLoading := True\<rparr>)"
  obtain r w2 where r: "initKepr ke ?w1 = (r, w2)"
    by (cases "initKepr ke ?w1")
  have "ids_inv p ?w1"
    using assms by (simp add: ids_inv_suggestChain ids_inv_update)
  from ids_inv_initKepr [OF r this] show ?thesis
    using True r by (simp add: connectKeplr_def ids_inv_update)
qed

lemma ids_inv_connectWalletConnect:
  assumes "ids_inv p w"
  shows "ids_inv p (connectWalletConnect p e w)"
proof -
  obtain r w1 where r: "initWalletConnect p e (w\<lparr>isLoading := True\<rparr>) = (r, w1)"
    by (cases "initWalletConnect p e (w\<lparr>isLoading := True\<rparr>)")
  have "ids_inv p (w\<lparr>isLoading := True\<rparr>)"
    using assms by (simp add: ids_inv_update)
  from ids_inv_initWalletConnect [OF r this] show ?thesis
    unfolding connectWalletConnect_eq [OF r]
    by (simp add: ids_inv_update)
qed

lemma ids_inv_keystoreChangeHandler:
  assumes "ids_inv p w"
  shows "ids_inv p (keystoreChangeHandler ke w)"
proof -
  let ?w1 = "emit (StorageGet KEY_CONNECTED_WALLET_TYPE) w"
  have w1: "ids_inv p ?w1"
    using assms by (simp add: ids_inv_emit)
  obtain r w2 where r: "initKepr ke ?w1 = (r, w2)"
    by (cases "initKepr ke ?w1")
  from ids_inv_initKepr [OF r w1] w1 r show ?thesis
    by (simp add: keystoreChangeHandler_def Let_def)
qed

lemma reachable_ids_inv: "reachable p w \<Longrightarrow> ids_inv p w"
  by (induction rule: reachable.induct)
    (simp_all add: ids_inv_boot ids_inv_setupAccount ids_inv_connectKeplr
      ids_inv_connectWalletConnect ids_inv_disconnect ids_inv_keystoreChangeHandler
      ids_inv_signDirect)

lemma fresh_request_id:
  assumes "ids_inv p w" and "inj (payload_id p)"
  shows "payload_id p (id_calls w) \<notin> set (request_ids (trace w))"
proof
  assume "payload_id p (id_calls w) \<in> set (request_ids (trace w))"
  with assms(1) obtain i where i: "i < id_calls w" "payload_id p i = payload_id p (id_calls w)"
    by (auto simp: ids_inv_def)
  from i(2) assms(2) have "i = id_calls w" by (simp add: inj_eq)
  with i(1) show False by simp
qed

subsection \<open>Signing through the relay\<close>

text \<open>
  C4. A call of \<^verbatim>\<open>signDirect\<close> on the relayed signer sends exactly one request through
  its connector: the method is \<^verbatim>\<open>cosmos_signDirect\<close>, the parameters are the signer
  address and \<^verbatim>\<open>SignDoc.toJSON(signDoc)\<close>, and the id is the value of a new call of
  \<^verbatim>\<open>payloadId()\<close>, the one numbered by the count of earlier calls, which goes up by
  one. In a reachable state, if \<^verbatim>\<open>payloadId\<close> never repeats a value, the id differs
  from the id of every request sent before. When the request is answered with a value
  that has properties and \<^verbatim>\<open>SignDoc.fromJSON\<close> accepts its \<^verbatim>\<open>signed\<close>, the call
  resolves with that deserialised document and with the \<^verbatim>\<open>signature\<close> of the answer.
\<close>

theorem signDirect_request_and_result:
  "signDirect p toJSON fromJSON answer c signerAddress signDoc w = (r, w') \<Longrightarrow>
     (let req = signDirect_request p (id_calls w) signerAddress (toJSON signDoc) in
        new_events w w' = [WcRequest c req] \<and>
        rpc_method req = ''cosmos_signDirect'' \<and>
        params req = [JStr signerAddress, toJSON signDoc] \<and>
        req_id req = payload_id p (id_calls w) \<and>
        id_calls w' = Suc (id_calls w) \<and>
        (reachable p w \<and> inj (payload_id p) \<longrightarrow>
           req_id req \<notin> set (request_ids (trace w))) \<and>
        (\<forall>res d. answer req = Inr res \<and> res \<noteq> JUndef \<and> res \<noteq> JNull \<and>
            fromJSON (get_prop res ''signed'') = Inr d \<longrightarrow>
          r = Inr \<lparr>signed = d, signature = get_prop res ''signature''\<rparr>))"
proof -
  assume a: "signDirect p toJSON fromJSON answer c signerAddress signDoc w = (r, w')"
  let ?req = "signDirect_request p (id_calls w) signerAddress (toJSON signDoc)"
  have 1: "new_events w w' = [WcRequest c ?req]" "id_calls w' = Suc (id_calls w)"
    using signDirect_frame(4,5) [of p toJSON fromJSON answer c signerAddress signDoc w] a
    by (simp_all add: new_events_def)
  have 2: "rpc_method ?req = ''cosmos_signDirect''"
    "params ?req = [JStr signerAddress, toJSON signDoc]"
    "req_id ?req = payload_id p (id_calls w)"
    by (simp_all add: signDirect_request_def)
  have 3: "reachable p w \<and> inj (payload_id p) \<longrightarrow>
      req_id ?req \<notin> set (request_ids (trace w))"
    using fresh_request_id [of p w] reachable_ids_inv [of p w] 2(3) by simp
  have 4: "\<forall>res d. answer ?req = Inr res \<and> res \<noteq> JUndef \<and> res \<noteq> JNull \<and>
      fromJSON (get_prop res ''signed'') = Inr d \<longrightarrow>
      r = Inr \<lparr>signed = d, signature = get_prop res ''signature''\<rparr>"
    using a by (auto simp: signDirect_def Let_def split: sum.splits if_splits)
  from 1 2 3 4 show ?thesis by (simp add: Let_def)
qed

lemma paired_world_eq:
  "paired_world =
     \<lparr>walletAddress = Some (JStr ''cosmos1depub''),
      offlineSigner = Some (RelayedSigner
        \<lparr>address = JStr ''cosmos1depub'', pubkey = [2, 171], algo = JStr ''secp256k1''\<rparr> 0),
      connector = Some 0, isLoading = False, error = None,
      storage = [(account_key ''peer1'', demo_account_json),
                 (KEY_CONNECTED_WALLET_TYPE, ''likerland_app'')],
      next_obj = 1, id_calls = 1,
      trace = [WcNew 0, WcOn 0, WcConnect 0, WcRequest 0 (getAccounts_request demo_platform 0)]\<rparr>"
  by (simp add: paired_world_def connectWalletConnect_def initWalletConnect_def wc_construct_def
      wc_account_def wc_finish_def set_error_def emit_def boot_def Let_def setItem_def
      wc_pairing_def demo_platform_def demo_account_def key_defs hex_digit_def
      getAccounts_request_def)

theorem signDirect_request_and_result_witness:
  "reachable demo_platform paired_world \<and> inj (payload_id demo_platform) \<and>
   getSigner paired_world = Some (RelayedSigner
     \<lparr>address = JStr ''cosmos1depub'', pubkey = [2, 171], algo = JStr ''secp256k1''\<rparr> 0) \<and>
   request_ids (trace paired_world) = [1000] \<and>
   fst (signDirect demo_platform (\<lambda>d. d) Inr (\<lambda>r. Inr demo_signed) 0 ''cosmos1depub''
          demo_doc paired_world) =
     Inr \<lparr>signed = demo_doc, signature = JObj [(''signature'', JStr ''c2ln'')]\<rparr> \<and>
   new_events paired_world
     (snd (signDirect demo_platform (\<lambda>d. d) Inr (\<lambda>r. Inr demo_signed) 0 ''cosmos1depub''
            demo_doc paired_world)) =
     [WcRequest 0 \<lparr>req_id = 1001, jsonrpc = ''2.0'', rpc_method = ''cosmos_signDirect'',
        params = [JStr ''cosmos1depub'', demo_doc]\<rparr>]"
proof -
  have r: "reachable demo_platform paired_world"
    unfolding paired_world_def by (intro reachable.relayed reachable.started)
  have i: "inj (payload_id demo_platform)"
    by (simp add: demo_platform_def inj_def)
  have s: "getSigner paired_world = Some (RelayedSigner
     \<lparr>address = JStr ''cosmos1depub'', pubkey = [2, 171], algo = JStr ''secp256k1''\<rparr> 0)"
    "id_calls paired_world = 1"
    "request_ids (trace paired_world) = [1000]"
    by (simp_all add: paired_world_eq getSigner_def getAccounts_request_def demo_platform_def)
  have q: "signDirect_request demo_platform (Suc 0) ''cosmos1depub'' demo_doc =
     \<lparr>req_id = 1001, jsonrpc = ''2.0'', rpc_method = ''cosmos_signDirect'',
        params = [JStr ''cosmos1depub'', demo_doc]\<rparr>"
    by (simp add: signDirect_request_def demo_platform_def)
  have f: "get_prop demo_signed ''signed'' = demo_doc"
    "get_prop demo_signed ''signature'' = JObj [(''signature'', JStr ''c2ln'')]"
    "demo_signed \<noteq> JUndef" "demo_signed \<noteq> JNull"
    by (simp_all add: demo_signed_def demo_doc_def)
  from signDirect_request_and_result [where p = demo_platform and toJSON = "\<lambda>d. d"
      and fromJSON = Inr and answer = "\<lambda>r. Inr demo_signed" and c = 0
      and signerAddress = "''cosmos1depub''" and signDoc = demo_doc and w = paired_world,
      OF surjective_pairing]
  show ?thesis using r i s f by (simp add: Let_def q)
qed

end
